theory Spec2Isabelle
  imports Complex_Main
begin

section \<open>JavaScript values used by the Transfer class\<close>

text \<open>
  A JavaScript string is a sequence of UTF-16 code units. The unsigned payload, the JSON
  text decoded from it and the string fields of the parsed payload are all values of this
  type, so one representation is used throughout: the list of the code units as numbers.
  \<open>js\<close> embeds an Isabelle string literal (one code unit per character).
\<close>

type_synonym jsstring = "nat list"

definition js :: "string \<Rightarrow> jsstring" where
  "js s = map of_char s"

text \<open>
  Everything the class can throw: its own two error classes (errors.ts), the generic
  \<open>Error\<close> of \<open>wait\<close>, the native errors of the built-in conversions, the
  invalid-argument error of the ethers setters, and a rejection of a provider request.
\<close>

datatype error =
    InternalError jsstring
  | InvalidUnsignedPayload jsstring
  | Error jsstring
  | TypeError
  | SyntaxError
  | RangeError
  | InvalidArgument
  | ProviderError jsstring

subsection \<open>BigInt\<close>

text \<open>
  \<open>BigInt(string)\<close> follows StringToBigInt of ECMAScript: the string is trimmed of white
  space and line terminators; the empty string is 0; otherwise it must be a decimal digit
  sequence with an optional sign, or an unsigned binary, octal or hexadecimal literal.
  Anything else is a SyntaxError.
\<close>

definition StrWhiteSpaceChar :: "nat \<Rightarrow> bool" where
  "StrWhiteSpaceChar c \<longleftrightarrow>
     c = 9 \<or> c = 10 \<or> c = 11 \<or> c = 12 \<or> c = 13 \<or> c = 32 \<or> c = 160 \<or> c = 5760 \<or>
     (8192 \<le> c \<and> c \<le> 8202) \<or> c = 8232 \<or> c = 8233 \<or> c = 8239 \<or> c = 8287 \<or>
     c = 12288 \<or> c = 65279"

definition trim :: "jsstring \<Rightarrow> jsstring" where
  "trim s = rev (dropWhile StrWhiteSpaceChar (rev (dropWhile StrWhiteSpaceChar s)))"

definition digit_val :: "nat \<Rightarrow> nat option" where
  "digit_val c =
     (if 48 \<le> c \<and> c \<le> 57 then Some (c - 48)
      else if 97 \<le> c \<and> c \<le> 102 then Some (c - 87)
      else if 65 \<le> c \<and> c \<le> 70 then Some (c - 55)
      else None)"

fun digits_value :: "nat \<Rightarrow> nat \<Rightarrow> jsstring \<Rightarrow> nat option" where
  "digits_value radix acc [] = Some acc"
| "digits_value radix acc (c # cs) =
     (case digit_val c of
        None \<Rightarrow> None
      | Some d \<Rightarrow> if d < radix then digits_value radix (acc * radix + d) cs else None)"

definition parse_digits :: "nat \<Rightarrow> jsstring \<Rightarrow> nat option" where
  "parse_digits radix cs = (if cs = [] then None else digits_value radix 0 cs)"

definition StringToBigInt :: "jsstring \<Rightarrow> int option" where
  "StringToBigInt str =
     (case trim str of
        [] \<Rightarrow> Some 0
      | c # cs \<Rightarrow>
          if c = 48 \<and> cs \<noteq> [] \<and> (hd cs = 120 \<or> hd cs = 88)
            then map_option int (parse_digits 16 (tl cs))
          else if c = 48 \<and> cs \<noteq> [] \<and> (hd cs = 111 \<or> hd cs = 79)
            then map_option int (parse_digits 8 (tl cs))
          else if c = 48 \<and> cs \<noteq> [] \<and> (hd cs = 98 \<or> hd cs = 66)
            then map_option int (parse_digits 2 (tl cs))
          else if c = 43 then map_option int (parse_digits 10 cs)
          else if c = 45 then map_option (\<lambda>n. - int n) (parse_digits 10 cs)
          else map_option int (parse_digits 10 (c # cs)))"

definition BigInt_string :: "jsstring \<Rightarrow> error + int" where
  "BigInt_string s = (case StringToBigInt s of None \<Rightarrow> Inl SyntaxError | Some n \<Rightarrow> Inr n)"

text \<open>
  The \<open>/\<close> of two BigInts: the quotient truncated towards zero, a RangeError when the
  divisor is zero.
\<close>

definition bigint_div :: "int \<Rightarrow> int \<Rightarrow> error + int" where
  "bigint_div a b =
     (if b = 0 then Inl RangeError else Inr (sgn a * sgn b * (\<bar>a\<bar> div \<bar>b\<bar>)))"

text \<open>
  The decimal numeral of a BigInt, as \<open>String\<close> and a template literal render it.
\<close>

fun decimal :: "nat \<Rightarrow> jsstring" where
  "decimal n = (if n < 10 then [48 + n] else decimal (n div 10) @ [48 + n mod 10])"

declare decimal.simps [simp del]

definition BigInt_toString :: "int \<Rightarrow> jsstring" where
  "BigInt_toString n = (if n < 0 then 45 # decimal (nat (- n)) else decimal (nat n))"

section \<open>From the payload string to bytes\<close>

text \<open>
  \<open>payload.match(/../g)\<close>: the successive non-overlapping matches of two code units that
  are not line terminators (which is all that \<open>.\<close> excludes). A code unit that cannot
  start a match is skipped; a last unpaired code unit is left out. \<open>match\<close> returns null
  when there is no match at all.
\<close>

definition LineTerminator :: "nat \<Rightarrow> bool" where
  "LineTerminator c \<longleftrightarrow> c = 10 \<or> c = 13 \<or> c = 8232 \<or> c = 8233"

fun match_pairs :: "jsstring \<Rightarrow> jsstring list" where
  "match_pairs (a # b # cs) =
     (if \<not> LineTerminator a \<and> \<not> LineTerminator b then [a, b] # match_pairs cs
      else match_pairs (b # cs))"
| "match_pairs cs = []"

text \<open>
  \<open>parseInt(byte, 16)\<close>: leading white space is dropped, then a sign, then a \<open>0x\<close> or
  \<open>0X\<close> prefix; the longest prefix of hexadecimal digits that follows is the value.
  With no digit there the result is NaN, here \<open>None\<close>.
\<close>

definition hex_digit :: "nat \<Rightarrow> bool" where
  "hex_digit c \<longleftrightarrow> digit_val c \<noteq> None"

definition parseInt16 :: "jsstring \<Rightarrow> int option" where
  "parseInt16 str =
     (let S = dropWhile StrWhiteSpaceChar str;
          sign = (if S \<noteq> [] \<and> hd S = 45 then - 1 else 1);
          S1 = (if S \<noteq> [] \<and> (hd S = 43 \<or> hd S = 45) then tl S else S);
          S2 = (if 2 \<le> length S1 \<and> hd S1 = 48 \<and> (S1 ! 1 = 120 \<or> S1 ! 1 = 88)
                then drop 2 S1 else S1);
          Z = takeWhile hex_digit S2
      in if Z = [] then None
         else map_option (\<lambda>n. sign * int n) (digits_value 16 0 Z))"

text \<open>
  An element of the \<open>Uint8Array\<close> built from the numbers: NaN becomes 0, anything else is
  taken modulo 256.
\<close>

definition ToUint8 :: "int option \<Rightarrow> nat" where
  "ToUint8 n = (case n of None \<Rightarrow> 0 | Some k \<Rightarrow> nat (k mod 256))"

section \<open>TextDecoder\<close>

text \<open>
  The UTF-8 decoder of the Encoding standard, in its default (replacement) mode: the
  state is the code point under construction, the continuation bytes seen and needed, and
  the bounds for the next continuation byte. A malformed sequence yields U+FFFD and the
  offending byte is read again as the start of a sequence.
\<close>

fun utf8_decoder :: "nat \<Rightarrow> nat \<Rightarrow> nat \<Rightarrow> nat \<Rightarrow> nat \<Rightarrow> nat list \<Rightarrow> nat list" where
  "utf8_decoder cp seen needed lower upper [] = (if needed \<noteq> 0 then [65533] else [])"
| "utf8_decoder cp seen needed lower upper (b # bs) =
     (if needed = 0 then
        (if b \<le> 127 then b # utf8_decoder 0 0 0 128 191 bs
         else if 194 \<le> b \<and> b \<le> 223 then utf8_decoder (b - 192) 0 1 128 191 bs
         else if 224 \<le> b \<and> b \<le> 239 then
           utf8_decoder (b - 224) 0 2 (if b = 224 then 160 else 128) (if b = 237 then 159 else 191) bs
         else if 240 \<le> b \<and> b \<le> 244 then
           utf8_decoder (b - 240) 0 3 (if b = 240 then 144 else 128) (if b = 244 then 143 else 191) bs
         else 65533 # utf8_decoder 0 0 0 128 191 bs)
      else if b < lower \<or> upper < b then 65533 # utf8_decoder 0 0 0 128 191 (b # bs)
      else if seen + 1 \<noteq> needed then utf8_decoder (cp * 64 + (b - 128)) (seen + 1) needed 128 191 bs
      else (cp * 64 + (b - 128)) # utf8_decoder 0 0 0 128 191 bs)"

text \<open>A code point as UTF-16 code units.\<close>

definition utf16_units :: "nat \<Rightarrow> nat list" where
  "utf16_units cp =
     (if cp < 65536 then [cp]
      else [55296 + (cp - 65536) div 1024, 56320 + (cp - 65536) mod 1024])"

text \<open>\<open>new TextDecoder().decode(bytes)\<close>: UTF-8, a leading byte order mark is dropped.\<close>

definition TextDecoder_decode :: "nat list \<Rightarrow> jsstring" where
  "TextDecoder_decode bytes =
     concat (map utf16_units
       (case utf8_decoder 0 0 0 128 191 bytes of
          [] \<Rightarrow> []
        | c # cs \<Rightarrow> if c = 65279 then cs else c # cs))"

section \<open>JSON.parse\<close>

text \<open>
  A Number as JSON.parse can produce it: a finite double, held by its exact value (the two
  zeros are not told apart: no operation of the class distinguishes them), or an infinity
  (a literal too large for a double).
\<close>

datatype number = Finite rat | PosInfinity | NegInfinity

datatype json =
    JNull
  | JBool bool
  | JNum number
  | JStr jsstring
  | JArr "json list"
  | JObj "(jsstring \<times> json) list"

subsection \<open>The Number value of a decimal literal\<close>

text \<open>
  The value \<open>p / q\<close> of a literal is rounded to the nearest double, ties to even: with
  \<open>2^e \<le> p / q < 2^(e+1)\<close> the doubles near it are the multiples of \<open>2^(e-52)\<close>
  (of \<open>2^(-1074)\<close> in the subnormal range), and a result of \<open>2^1024\<close> or more is
  an infinity. All of it is integer arithmetic.
\<close>

fun bit_length :: "nat \<Rightarrow> nat" where
  "bit_length n = (if n = 0 then 0 else Suc (bit_length (n div 2)))"

declare bit_length.simps [simp del]

definition floor_log2 :: "nat \<Rightarrow> nat \<Rightarrow> int" where
  "floor_log2 p q =
     (let d = int (bit_length p) - int (bit_length q)
      in if (if 0 \<le> d then q * 2 ^ nat d \<le> p else q \<le> p * 2 ^ nat (- d)) then d else d - 1)"

definition round_half_even :: "nat \<Rightarrow> nat \<Rightarrow> nat" where
  "round_half_even num den =
     (let n = num div den; r = num mod den
      in if 2 * r < den then n else if den < 2 * r then n + 1 else if even n then n else n + 1)"

definition round_double :: "bool \<Rightarrow> nat \<Rightarrow> nat \<Rightarrow> number" where
  "round_double neg p q =
     (if p = 0 then Finite 0
      else
        (let k = max (floor_log2 p q) (- 1022) - 52;
             n = (if 0 \<le> k then round_half_even p (q * 2 ^ nat k)
                  else round_half_even (p * 2 ^ nat (- k)) q)
         in if 0 \<le> k \<and> 2 ^ 1024 \<le> n * 2 ^ nat k
            then (if neg then NegInfinity else PosInfinity)
            else Finite ((if neg then - 1 else 1) *
                         (if 0 \<le> k then of_nat (n * 2 ^ nat k) else of_nat n / 2 ^ nat (- k)))))"

subsection \<open>Tokens\<close>

datatype token =
    TLBrace | TRBrace | TLBracket | TRBracket | TColon | TComma
  | TPrim json

definition is_digit :: "nat \<Rightarrow> bool" where
  "is_digit c \<longleftrightarrow> 48 \<le> c \<and> c \<le> 57"

text \<open>
  The characters of a string after the opening quote, up to the closing one: no control
  character, and the escapes of the JSON grammar. The result is the string value and the
  text after the closing quote.
\<close>

definition hex4 :: "nat \<Rightarrow> nat \<Rightarrow> nat \<Rightarrow> nat \<Rightarrow> nat option" where
  "hex4 a b c d = (if hex_digit a \<and> hex_digit b \<and> hex_digit c \<and> hex_digit d
     then digits_value 16 0 [a, b, c, d] else None)"

fun lex_string :: "jsstring \<Rightarrow> jsstring \<Rightarrow> (jsstring \<times> jsstring) option" where
  "lex_string acc [] = None"
| "lex_string acc (c # cs) =
     (if c = 34 then Some (rev acc, cs)
      else if c = 92 then
        (case cs of
           [] \<Rightarrow> None
         | e # r \<Rightarrow>
             if e = 34 \<or> e = 92 \<or> e = 47 then lex_string (e # acc) r
             else if e = 98 then lex_string (8 # acc) r
             else if e = 102 then lex_string (12 # acc) r
             else if e = 110 then lex_string (10 # acc) r
             else if e = 114 then lex_string (13 # acc) r
             else if e = 116 then lex_string (9 # acc) r
             else if e = 117 then
               (case r of
                  h1 # h2 # h3 # h4 # r' \<Rightarrow>
                    (case hex4 h1 h2 h3 h4 of
                       None \<Rightarrow> None
                     | Some u \<Rightarrow> lex_string (u # acc) r')
                | _ \<Rightarrow> None)
             else None)
      else if c < 32 then None
      else lex_string (c # acc) cs)"

text \<open>
  A number literal at the head of the text: an optional minus, an integer part without a
  superfluous leading zero, an optional fraction, an optional exponent. Each part is read
  off the front of the text and returned with the text that follows it.
\<close>

definition opt_minus :: "jsstring \<Rightarrow> bool \<times> jsstring" where
  "opt_minus cs = (if cs \<noteq> [] \<and> hd cs = 45 then (True, tl cs) else (False, cs))"

definition digits :: "jsstring \<Rightarrow> jsstring \<times> jsstring" where
  "digits cs = (takeWhile is_digit cs, dropWhile is_digit cs)"

definition opt_fraction :: "jsstring \<Rightarrow> jsstring option \<times> jsstring" where
  "opt_fraction cs =
     (if cs \<noteq> [] \<and> hd cs = 46 then (Some (fst (digits (tl cs))), snd (digits (tl cs)))
      else (None, cs))"

definition opt_sign :: "jsstring \<Rightarrow> bool \<times> jsstring" where
  "opt_sign cs = (if cs \<noteq> [] \<and> (hd cs = 43 \<or> hd cs = 45) then (hd cs = 45, tl cs) else (False, cs))"

definition opt_exponent :: "jsstring \<Rightarrow> (bool \<times> jsstring) option \<times> jsstring" where
  "opt_exponent cs =
     (if cs \<noteq> [] \<and> (hd cs = 101 \<or> hd cs = 69)
      then (Some (fst (opt_sign (tl cs)), fst (digits (snd (opt_sign (tl cs))))),
            snd (digits (snd (opt_sign (tl cs)))))
      else (None, cs))"

definition decimal_value :: "jsstring \<Rightarrow> nat" where
  "decimal_value ds = foldl (\<lambda>a c. 10 * a + (c - 48)) 0 ds"

text \<open>The Number value of the literal with these parts.\<close>

definition number_value :: "bool \<Rightarrow> jsstring \<Rightarrow> jsstring \<Rightarrow> (bool \<times> jsstring) option \<Rightarrow> number" where
  "number_value neg ip fp ex =
     (let e = (case ex of
                 None \<Rightarrow> 0
               | Some (eneg, ep) \<Rightarrow>
                   if eneg then - int (decimal_value ep) else int (decimal_value ep));
          scale = e - int (length fp)
      in if 0 \<le> scale then round_double neg (decimal_value (ip @ fp) * 10 ^ nat scale) 1
         else round_double neg (decimal_value (ip @ fp)) (10 ^ nat (- scale)))"

definition lex_number :: "jsstring \<Rightarrow> (number \<times> jsstring) option" where
  "lex_number cs =
     (case opt_minus cs of (neg, r0) \<Rightarrow>
      case digits r0 of (ip, r1) \<Rightarrow>
      case opt_fraction r1 of (fp, r2) \<Rightarrow>
      case opt_exponent r2 of (ex, r3) \<Rightarrow>
        if ip = [] \<or> (2 \<le> length ip \<and> hd ip = 48) \<or> fp = Some [] \<or>
           (case ex of None \<Rightarrow> False | Some (eneg, ep) \<Rightarrow> ep = [])
        then None
        else Some (number_value neg ip (case fp of None \<Rightarrow> [] | Some ds \<Rightarrow> ds) ex, r3))"

lemma lex_string_length: "lex_string acc cs = Some (s, r) \<Longrightarrow> length r < length cs"
proof (induction "length cs" arbitrary: acc cs rule: less_induct)
  case less
  obtain c cs' where cs: "cs = c # cs'"
    using less.prems by (cases cs) auto
  have IH: "\<And>acc' xs. lex_string acc' xs = Some (s, r) \<Longrightarrow> length xs < length cs \<Longrightarrow> length r < length xs"
    using less.hyps by blast
  from less.prems show ?case
    unfolding cs
    by (auto split: if_splits list.splits option.splits dest!: IH simp: cs)
qed

lemma opt_minus_length: "length (snd (opt_minus cs)) \<le> length cs"
  by (simp add: opt_minus_def)

lemma opt_sign_length: "length (snd (opt_sign cs)) \<le> length cs"
  by (simp add: opt_sign_def)

lemma digits_length: "length (fst (digits cs)) + length (snd (digits cs)) = length cs"
  unfolding digits_def fst_conv snd_conv
  by (metis length_append takeWhile_dropWhile_id)

lemma digits_rest_length: "length (snd (digits cs)) \<le> length cs"
  using digits_length [of cs] by linarith

lemma opt_fraction_length: "length (snd (opt_fraction cs)) \<le> length cs"
proof -
  have "length (snd (digits (tl cs))) \<le> length (tl cs)" by (rule digits_rest_length)
  also have "\<dots> \<le> length cs" by simp
  finally show ?thesis by (simp add: opt_fraction_def)
qed

lemma opt_exponent_length: "length (snd (opt_exponent cs)) \<le> length cs"
proof -
  have "length (snd (digits (snd (opt_sign (tl cs))))) \<le> length (snd (opt_sign (tl cs)))"
    by (rule digits_rest_length)
  also have "\<dots> \<le> length (tl cs)" by (rule opt_sign_length)
  also have "\<dots> \<le> length cs" by simp
  finally show ?thesis by (simp add: opt_exponent_def)
qed

lemma lex_number_length:
  assumes "lex_number cs = Some (n, r)"
  shows "length r < length cs"
proof -
  obtain neg r0 where a: "opt_minus cs = (neg, r0)" by (cases "opt_minus cs")
  obtain ip r1 where b: "digits r0 = (ip, r1)" by (cases "digits r0")
  obtain fp r2 where c: "opt_fraction r1 = (fp, r2)" by (cases "opt_fraction r1")
  obtain ex r3 where d: "opt_exponent r2 = (ex, r3)" by (cases "opt_exponent r2")
  from assms have ip: "ip \<noteq> []" and r: "r = r3"
    by (auto simp: lex_number_def a b c d split: if_splits)
  have "length r0 \<le> length cs" using opt_minus_length [of cs] a by simp
  moreover have "length r1 < length r0" using digits_length [of r0] b ip by (cases ip) auto
  moreover have "length r2 \<le> length r1" using opt_fraction_length [of r1] c by simp
  moreover have "length r3 \<le> length r2" using opt_exponent_length [of r2] d by simp
  ultimately show ?thesis using r by simp
qed

text \<open>The text as tokens; white space between tokens is a tab, a line feed, a carriage return or a space.\<close>

function lex :: "jsstring \<Rightarrow> token list option" where
  "lex [] = Some []"
| "lex (c # cs) =
     (if c = 9 \<or> c = 10 \<or> c = 13 \<or> c = 32 then lex cs
      else if c = 123 then map_option (Cons TLBrace) (lex cs)
      else if c = 125 then map_option (Cons TRBrace) (lex cs)
      else if c = 91 then map_option (Cons TLBracket) (lex cs)
      else if c = 93 then map_option (Cons TRBracket) (lex cs)
      else if c = 58 then map_option (Cons TColon) (lex cs)
      else if c = 44 then map_option (Cons TComma) (lex cs)
      else if c = 34 then
        (case lex_string [] cs of
           None \<Rightarrow> None
         | Some (s, r) \<Rightarrow> map_option (Cons (TPrim (JStr s))) (lex r))
      else if c = 45 \<or> is_digit c then
        (case lex_number (c # cs) of
           None \<Rightarrow> None
         | Some (n, r) \<Rightarrow> map_option (Cons (TPrim (JNum n))) (lex r))
      else if c = 116 \<and> take 3 cs = [114, 117, 101] then
        map_option (Cons (TPrim (JBool True))) (lex (drop 3 cs))
      else if c = 102 \<and> take 4 cs = [97, 108, 115, 101] then
        map_option (Cons (TPrim (JBool False))) (lex (drop 4 cs))
      else if c = 110 \<and> take 3 cs = [117, 108, 108] then
        map_option (Cons (TPrim JNull)) (lex (drop 3 cs))
      else None)"
  by pat_completeness auto
termination
  by (relation "measure length")
     (auto dest: lex_string_length lex_number_length)

subsection \<open>Values\<close>

text \<open>
  The tokens as a value, read left to right with a stack of the arrays and objects that
  are open: an open array holds its elements so far, an open object its members so far
  and the key whose value is being read. \<open>Val\<close> expects a value, \<open>Done v\<close> has just
  completed the value \<open>v\<close>.
\<close>

datatype frame = InArr "json list" | InObj "(jsstring \<times> json) list" jsstring

datatype mode = Val | Done json

fun parse_tokens :: "mode \<Rightarrow> frame list \<Rightarrow> token list \<Rightarrow> json option" where
  "parse_tokens Val st (TPrim v # ts) = parse_tokens (Done v) st ts"
| "parse_tokens Val st (TLBracket # ts) =
     (case ts of
        TRBracket # r \<Rightarrow> parse_tokens (Done (JArr [])) st r
      | _ \<Rightarrow> parse_tokens Val (InArr [] # st) ts)"
| "parse_tokens Val st (TLBrace # ts) =
     (case ts of
        TRBrace # r \<Rightarrow> parse_tokens (Done (JObj [])) st r
      | TPrim (JStr k) # TColon # r \<Rightarrow> parse_tokens Val (InObj [] k # st) r
      | _ \<Rightarrow> None)"
| "parse_tokens Val st ts = None"
| "parse_tokens (Done v) [] ts = (if ts = [] then Some v else None)"
| "parse_tokens (Done v) (InArr vs # st) (TComma # ts) = parse_tokens Val (InArr (v # vs) # st) ts"
| "parse_tokens (Done v) (InArr vs # st) (TRBracket # ts) =
     parse_tokens (Done (JArr (rev (v # vs)))) st ts"
| "parse_tokens (Done v) (InArr vs # st) ts = None"
| "parse_tokens (Done v) (InObj ms k # st) (TComma # ts) =
     (case ts of
        TPrim (JStr k') # TColon # r \<Rightarrow> parse_tokens Val (InObj ((k, v) # ms) k' # st) r
      | _ \<Rightarrow> None)"
| "parse_tokens (Done v) (InObj ms k # st) (TRBrace # ts) =
     parse_tokens (Done (JObj (rev ((k, v) # ms)))) st ts"
| "parse_tokens (Done v) (InObj ms k # st) ts = None"

text \<open>\<open>JSON.parse(text)\<close>; \<open>None\<close> is its SyntaxError.\<close>

definition JSON_parse :: "jsstring \<Rightarrow> json option" where
  "JSON_parse text = (case lex text of None \<Rightarrow> None | Some ts \<Rightarrow> parse_tokens Val [] ts)"

section \<open>Reading the parsed payload\<close>

text \<open>
  What the model takes from outside the repository without defining it:
  \<^item> \<open>Number_toString\<close>, the decimal rendering of a Number (ECMAScript leaves the
    last digit to the implementation); it is reached only when a field of the payload is
    an array that holds a number;
  \<^item> \<open>getAddress\<close> of ethers, which validates a recipient and returns it with its
    checksum capitalisation (a Keccak-256 hash), \<open>None\<close> when it throws.
\<close>

record Platform =
  Number_toString :: "number \<Rightarrow> jsstring"
  getAddress :: "jsstring \<Rightarrow> jsstring option"

text \<open>
  \<open>parsedPayload.name\<close> for the names the class reads (\<open>chainId\<close>, \<open>nonce\<close>,
  \<open>maxPriorityFeePerGas\<close>, \<open>maxFeePerGas\<close>, \<open>gas\<close>, \<open>to\<close>, \<open>value\<close>,
  \<open>input\<close>; no prototype has one of them): reading a property of null is a TypeError;
  an object has the member of that name written last, else undefined; every other value
  has undefined. Undefined is \<open>None\<close>.
\<close>

definition get_property :: "json \<Rightarrow> jsstring \<Rightarrow> error + json option" where
  "get_property v name =
     (case v of
        JNull \<Rightarrow> Inl TypeError
      | JObj ms \<Rightarrow> Inr (map_of (rev ms) name)
      | _ \<Rightarrow> Inr None)"

text \<open>
  \<open>ToString\<close> of a value inside an array that is converted to a primitive: an array is
  its elements joined by commas, null and undefined elements being empty; an object is
  \<open>[object Object]\<close> unless it has an own \<open>toString\<close> member, which is not callable:
  then the conversion falls back on \<open>valueOf\<close> and ends in a TypeError.
\<close>

fun ToString :: "Platform \<Rightarrow> json \<Rightarrow> error + jsstring"
  and join :: "Platform \<Rightarrow> json list \<Rightarrow> error + jsstring" where
  "ToString P JNull = Inr (js ''null'')"
| "ToString P (JBool b) = Inr (if b then js ''true'' else js ''false'')"
| "ToString P (JNum n) = Inr (Number_toString P n)"
| "ToString P (JStr s) = Inr s"
| "ToString P (JArr vs) = join P vs"
| "ToString P (JObj ms) =
     (if map_of ms (js ''toString'') = None then Inr (js ''[object Object]'') else Inl TypeError)"
| "join P [] = Inr []"
| "join P (v # vs) =
     (case (if v = JNull then Inr [] else ToString P v) of
        Inl e \<Rightarrow> Inl e
      | Inr s \<Rightarrow>
          if vs = [] then Inr s
          else (case join P vs of Inl e \<Rightarrow> Inl e | Inr r \<Rightarrow> Inr (s @ 44 # r)))"

text \<open>
  \<open>BigInt(value)\<close>: undefined and null are a TypeError; a boolean is 0 or 1; a Number
  must be an integer, else a RangeError; a string is read by StringToBigInt, else a
  SyntaxError; an array or an object is first converted to a primitive, which is a string.
\<close>

definition BigInt :: "Platform \<Rightarrow> json option \<Rightarrow> error + int" where
  "BigInt P v =
     (case v of
        None \<Rightarrow> Inl TypeError
      | Some JNull \<Rightarrow> Inl TypeError
      | Some (JBool b) \<Rightarrow> Inr (if b then 1 else 0)
      | Some (JNum n) \<Rightarrow>
          (case n of
             Finite x \<Rightarrow> if x = of_int \<lfloor>x\<rfloor> then Inr \<lfloor>x\<rfloor> else Inl RangeError
           | _ \<Rightarrow> Inl RangeError)
      | Some (JStr s) \<Rightarrow> BigInt_string s
      | Some (JArr vs) \<Rightarrow>
          (case join P vs of Inl e \<Rightarrow> Inl e | Inr s \<Rightarrow> BigInt_string s)
      | Some (JObj ms) \<Rightarrow>
          (if map_of ms (js ''toString'') = None then Inl SyntaxError else Inl TypeError))"

section \<open>The data model\<close>

datatype TransferStatus = PENDING | BROADCAST | COMPLETE | FAILED

text \<open>
  The fields of the generated API model (\<open>Transfer\<close> of client/api) that the class reads.
  \<open>signed_payload\<close> and \<open>transaction_hash\<close> may be undefined.
\<close>

record TransferModel =
  transfer_id :: jsstring
  network_id :: jsstring
  wallet_id :: jsstring
  address_id :: jsstring
  destination :: jsstring
  asset_id :: jsstring
  amount :: jsstring
  unsigned_payload :: jsstring
  signed_payload :: "jsstring option"
  transaction_hash :: "jsstring option"

text \<open>
  The fields of an \<open>ethers.Transaction\<close> that \<open>getTransaction\<close> assigns. The gas fees
  and the recipient are nullable in ethers; the nonce is a JavaScript number there, held
  here by its exact integer value.
\<close>

record Transaction =
  chainId :: int
  nonce :: int
  maxPriorityFeePerGas :: "int option"
  maxFeePerGas :: "int option"
  gasLimit :: int
  to :: "jsstring option"
  value' :: int
  data :: jsstring

text \<open>
  What the provider answers. Only \<open>blockHash\<close> of a transaction response and \<open>status\<close>
  of a receipt are read. A request issued when the clock reads \<open>t\<close> (milliseconds)
  is answered from the chain as it is at \<open>t\<close> and resolves \<open>provider_latency t\<close>
  milliseconds later; a rejected request is an \<open>Inl\<close>, a null answer is \<open>None\<close>.
\<close>

record TransactionResponse =
  blockHash :: "jsstring option"

record TransactionReceipt =
  status :: "int option"

record Provider =
  provider_getTransaction :: "rat \<Rightarrow> jsstring \<Rightarrow> error + TransactionResponse option"
  provider_getTransactionReceipt :: "rat \<Rightarrow> jsstring \<Rightarrow> error + TransactionReceipt option"
  provider_latency :: "rat \<Rightarrow> rat"

record TransferClients =
  baseSepoliaProvider :: Provider

record Transfer =
  model :: TransferModel
  client :: TransferClients
  transaction :: "Transaction option"

subsection \<open>The setters of ethers.Transaction\<close>

text \<open>
  The class assigns BigInts to the numeric fields. The setters of \<open>chainId\<close>, the two
  fees, \<open>gasLimit\<close> and \<open>value\<close> keep a BigInt as it is. The setter of \<open>nonce\<close>
  stores a Number and refuses a BigInt outside the safe integers.
\<close>

definition set_nonce :: "int \<Rightarrow> error + int" where
  "set_nonce v = (if - (2 ^ 53 - 1) \<le> v \<and> v \<le> 2 ^ 53 - 1 then Inr v else Inl InvalidArgument)"

text \<open>The setter of \<open>to\<close>: null and undefined clear the recipient, a string must be an address.\<close>

definition set_to :: "Platform \<Rightarrow> json option \<Rightarrow> error + jsstring option" where
  "set_to P v =
     (case v of
        None \<Rightarrow> Inr None
      | Some JNull \<Rightarrow> Inr None
      | Some (JStr s) \<Rightarrow>
          (case getAddress P s of None \<Rightarrow> Inl InvalidArgument | Some a \<Rightarrow> Inr (Some a))
      | _ \<Rightarrow> Inl InvalidArgument)"

text \<open>
  The setter of \<open>data\<close> is \<open>hexlify\<close>: the value must be a string \<open>0x\<close> followed by
  pairs of hexadecimal digits (in either case), and is stored in lower case.
\<close>

definition lower_hex :: "nat \<Rightarrow> nat" where
  "lower_hex c = (if 65 \<le> c \<and> c \<le> 70 then c + 32 else c)"

definition set_data :: "json option \<Rightarrow> error + jsstring" where
  "set_data v =
     (case v of
        Some (JStr s) \<Rightarrow>
          if (take 2 s = [48, 120] \<or> take 2 s = [48, 88]) \<and> list_all hex_digit (drop 2 s) \<and>
             even (length s)
          then Inr (48 # 120 # map lower_hex (drop 2 s))
          else Inl InvalidArgument
      | _ \<Rightarrow> Inl InvalidArgument)"

section \<open>The Transfer class\<close>

definition new_Transfer :: "TransferModel option \<Rightarrow> TransferClients option \<Rightarrow> error + Transfer" where
  "new_Transfer transferModel clients =
     (case transferModel of
        None \<Rightarrow> Inl (InternalError (js ''Transfer model cannot be empty''))
      | Some m \<Rightarrow>
          (case clients of
             None \<Rightarrow> Inl (InternalError (js ''API clients cannot be empty''))
           | Some c \<Rightarrow> Inr \<lparr>model = m, client = c, transaction = None\<rparr>))"


definition getAssetId :: "Transfer \<Rightarrow> jsstring" where
  "getAssetId this = asset_id (model this)"

definition getUnsignedPayload :: "Transfer \<Rightarrow> jsstring" where
  "getUnsignedPayload this = unsigned_payload (model this)"

definition getSignedPayload :: "Transfer \<Rightarrow> jsstring option" where
  "getSignedPayload this = signed_payload (model this)"

definition getTransactionHash :: "Transfer \<Rightarrow> jsstring option" where
  "getTransactionHash this = transaction_hash (model this)"

text \<open>
  Modelled from the spec: \<open>Coinbase.WEI_PER_ETHER\<close> is declared in coinbase.ts, which is
  not among the sources; the spec gives the divisor of an 18-decimal native asset, 10^18.
\<close>

definition WEI_PER_ETHER :: int where
  "WEI_PER_ETHER = 10 ^ 18"

text \<open>
  \<open>getAmount\<close>. The asset identifier \<open>Coinbase.assetList.Eth\<close> comes from the same
  missing file and is a parameter.
\<close>

definition getAmount :: "jsstring \<Rightarrow> Transfer \<Rightarrow> error + int" where
  "getAmount Eth this =
     (case BigInt_string (amount (model this)) of
        Inl e \<Rightarrow> Inl e
      | Inr amt \<Rightarrow>
          if getAssetId this = Eth then bigint_div amt WEI_PER_ETHER
          else BigInt_string (amount (model this)))"

subsection \<open>getTransaction\<close>

definition and_then :: "error + 'a \<Rightarrow> ('a \<Rightarrow> error + 'b) \<Rightarrow> error + 'b" where
  "and_then r f = (case r of Inl e \<Rightarrow> Inl e | Inr x \<Rightarrow> f x)"

text \<open>
  The optional chain \<open>payload.match(/../g)?.map(byte => parseInt(byte, 16))\<close>: undefined
  when there is no match.
\<close>

definition rawPayload :: "jsstring \<Rightarrow> int option list option" where
  "rawPayload payload =
     (if match_pairs payload = [] then None else Some (map parseInt16 (match_pairs payload)))"

text \<open>The two guarded steps: the payload as numbers, then as JSON within the try block.\<close>

definition parse_payload :: "jsstring \<Rightarrow> error + json" where
  "parse_payload payload =
     (case rawPayload payload of
        None \<Rightarrow> Inl (InvalidUnsignedPayload (js ''Unable to parse unsigned payload''))
      | Some raw \<Rightarrow>
          (case JSON_parse (TextDecoder_decode (map ToUint8 raw)) of
             None \<Rightarrow> Inl (InvalidUnsignedPayload (js ''Unable to decode unsigned payload JSON''))
           | Some parsedPayload \<Rightarrow> Inr parsedPayload))"

definition BigInt_property :: "Platform \<Rightarrow> json \<Rightarrow> jsstring \<Rightarrow> error + int" where
  "BigInt_property P parsedPayload name = and_then (get_property parsedPayload name) (BigInt P)"

text \<open>The eight assignments, in the order of the source; the first that throws ends them.\<close>

definition assign_fields :: "Platform \<Rightarrow> json \<Rightarrow> error + Transaction" where
  "assign_fields P parsedPayload =
     and_then (BigInt_property P parsedPayload (js ''chainId'')) (\<lambda>c.
     and_then (and_then (BigInt_property P parsedPayload (js ''nonce'')) set_nonce) (\<lambda>n.
     and_then (BigInt_property P parsedPayload (js ''maxPriorityFeePerGas'')) (\<lambda>p.
     and_then (BigInt_property P parsedPayload (js ''maxFeePerGas'')) (\<lambda>f.
     and_then (BigInt_property P parsedPayload (js ''gas'')) (\<lambda>g.
     and_then (and_then (get_property parsedPayload (js ''to'')) (set_to P)) (\<lambda>t.
     and_then (BigInt_property P parsedPayload (js ''value'')) (\<lambda>v.
     and_then (and_then (get_property parsedPayload (js ''input'')) set_data) (\<lambda>d.
       Inr \<lparr>chainId = c, nonce = n, maxPriorityFeePerGas = Some p, maxFeePerGas = Some f,
            gasLimit = g, to = t, value' = v, data = d\<rparr>))))))))"

definition decode_payload :: "Platform \<Rightarrow> jsstring \<Rightarrow> error + Transaction" where
  "decode_payload P payload = and_then (parse_payload payload) (assign_fields P)"

text \<open>
  \<open>getTransaction\<close>: the memoized transaction if there is one, else the decoded payload,
  which is memoized when the decoding succeeds. The result comes with the Transfer as the
  call leaves it.
\<close>

definition getTransaction :: "Platform \<Rightarrow> Transfer \<Rightarrow> (error + Transaction) \<times> Transfer" where
  "getTransaction P this =
     (case transaction this of
        Some tx \<Rightarrow> (Inr tx, this)
      | None \<Rightarrow>
          (case decode_payload P (getUnsignedPayload this) of
             Inl e \<Rightarrow> (Inl e, this)
           | Inr tx \<Rightarrow> (Inr tx, this\<lparr>transaction := Some tx\<rparr>)))"

definition setSignedTransaction :: "Transaction \<Rightarrow> Transfer \<Rightarrow> Transfer" where
  "setSignedTransaction tx this = this\<lparr>transaction := Some tx\<rparr>"

subsection \<open>Status\<close>

text \<open>Truthiness of the values \<open>getStatus\<close> tests: undefined, null, the empty string and 0 are falsy.\<close>

definition truthy_string :: "jsstring option \<Rightarrow> bool" where
  "truthy_string s = (case s of None \<Rightarrow> False | Some v \<Rightarrow> v \<noteq> [])"

definition truthy_number :: "int option \<Rightarrow> bool" where
  "truthy_number n = (case n of None \<Rightarrow> False | Some v \<Rightarrow> v \<noteq> 0)"

text \<open>
  \<open>getStatus\<close> started when the clock reads \<open>now\<close>: the status it resolves to (or the
  provider's rejection) and the clock reading when it settles.
\<close>

definition getStatus :: "Transfer \<Rightarrow> rat \<Rightarrow> (error + TransferStatus) \<times> rat" where
  "getStatus this now =
     (case getTransactionHash this of
        None \<Rightarrow> (Inr PENDING, now)
      | Some transactionHash \<Rightarrow>
          if transactionHash = [] then (Inr PENDING, now)
          else
            (let provider = baseSepoliaProvider (client this);
                 t1 = now + provider_latency provider now
             in case provider_getTransaction provider now transactionHash of
                  Inl e \<Rightarrow> (Inl e, t1)
                | Inr None \<Rightarrow> (Inr PENDING, t1)
                | Inr (Some onchainTransaction) \<Rightarrow>
                    if \<not> truthy_string (blockHash onchainTransaction) then (Inr BROADCAST, t1)
                    else
                      (let t2 = t1 + provider_latency provider t1
                       in case provider_getTransactionReceipt provider t1 transactionHash of
                            Inl e \<Rightarrow> (Inl e, t2)
                          | Inr transactionReceipt \<Rightarrow>
                              (Inr (if truthy_number (Option.bind transactionReceipt status)
                                    then COMPLETE else FAILED), t2))))"

subsection \<open>Waiting\<close>

text \<open>
  Modelled from the spec: \<open>delay\<close> is declared in utils.ts, which is not among the
  sources; the spec has the wait suspend for \<open>intervalSeconds\<close>. The clock reads
  milliseconds.
\<close>

definition delay :: "rat \<Rightarrow> rat \<Rightarrow> rat" where
  "delay seconds now = now + seconds * 1000"

text \<open>
  The arguments of \<open>wait\<close> are Numbers. A caller who writes the decimal \<open>x\<close> passes the
  double nearest to it, and the product \<open>timeoutSeconds * 1000\<close> is the double nearest
  to the exact product (an infinite timeout stays infinite): \<open>2.007 * 1000\<close> is
  \<open>2007.0000000000002\<close>. The comparison with the elapsed time is exact.
\<close>

definition Number_of_rat :: "rat \<Rightarrow> number" where
  "Number_of_rat x = (case quotient_of x of (a, b) \<Rightarrow> round_double (a < 0) (nat \<bar>a\<bar>) (nat b))"

definition Number_times_1000 :: "number \<Rightarrow> number" where
  "Number_times_1000 x =
     (case x of
        Finite v \<Rightarrow> Number_of_rat (v * 1000)
      | PosInfinity \<Rightarrow> PosInfinity
      | NegInfinity \<Rightarrow> NegInfinity)"

definition Number_less :: "rat \<Rightarrow> number \<Rightarrow> bool" where
  "Number_less x y =
     (case y of Finite v \<Rightarrow> x < v | PosInfinity \<Rightarrow> True | NegInfinity \<Rightarrow> False)"

text \<open>
  The loop of \<open>wait\<close>, with the clock threaded through: \<open>now\<close> is what \<open>Date.now()\<close>
  reads at the loop test. The result is the returned Transfer or the thrown error, with
  the clock reading at that moment; \<open>None\<close> is a loop that never ends.
\<close>

partial_function (option) wait_loop ::
  "Transfer \<Rightarrow> rat \<Rightarrow> number \<Rightarrow> rat \<Rightarrow> rat \<Rightarrow> ((error + Transfer) \<times> rat) option" where
  "wait_loop this intervalSeconds timeoutSeconds startTime now =
     (if Number_less (now - startTime) (Number_times_1000 timeoutSeconds) then
        (case getStatus this now of
           (Inl e, t) \<Rightarrow> Some (Inl e, t)
         | (Inr status', t) \<Rightarrow>
             if status' = COMPLETE \<or> status' = FAILED then Some (Inr this, t)
             else wait_loop this intervalSeconds timeoutSeconds startTime (delay intervalSeconds t))
      else Some (Inl (Error (js ''Transfer timed out'')), now))"

text \<open>
  \<open>wait\<close> called when the clock reads \<open>now\<close>, with the defaults 0.2 and 10 of the
  parameters. The interval reaches \<open>delay\<close> only.
\<close>

definition wait :: "Transfer \<Rightarrow> rat option \<Rightarrow> rat option \<Rightarrow> rat \<Rightarrow> ((error + Transfer) \<times> rat) option" where
  "wait this intervalSeconds timeoutSeconds now =
     wait_loop this
       (case intervalSeconds of None \<Rightarrow> 2 / 10 | Some i \<Rightarrow> i)
       (Number_of_rat (case timeoutSeconds of None \<Rightarrow> 10 | Some T \<Rightarrow> T))
       now now"

section \<open>Sample values\<close>

definition quiet_provider :: Provider where
  "quiet_provider =
     \<lparr>provider_getTransaction = (\<lambda>t h. Inr None),
      provider_getTransactionReceipt = (\<lambda>t h. Inr None),
      provider_latency = (\<lambda>t. 0)\<rparr>"

definition mined_provider :: "int option option \<Rightarrow> rat \<Rightarrow> Provider" where
  "mined_provider receipt ms =
     \<lparr>provider_getTransaction = (\<lambda>t h. Inr (Some \<lparr>blockHash = Some (js ''0xb1'')\<rparr>)),
      provider_getTransactionReceipt =
        (\<lambda>t h. Inr (map_option (\<lambda>s. \<lparr>status = s\<rparr>) receipt)),
      provider_latency = (\<lambda>t. ms)\<rparr>"

definition slow_provider :: "rat \<Rightarrow> Provider" where
  "slow_provider ms =
     \<lparr>provider_getTransaction = (\<lambda>t h. Inr None),
      provider_getTransactionReceipt = (\<lambda>t h. Inr None),
      provider_latency = (\<lambda>t. ms)\<rparr>"

text \<open>
  A provider that knows nothing of the transaction before the clock reads \<open>mined\<close>,
  and the mined transaction with a successful receipt from then on.
\<close>

definition late_provider :: "rat \<Rightarrow> rat \<Rightarrow> Provider" where
  "late_provider mined ms =
     \<lparr>provider_getTransaction =
        (\<lambda>t h. if t < mined then Inr None else Inr (Some \<lparr>blockHash = Some (js ''0xb1'')\<rparr>)),
      provider_getTransactionReceipt = (\<lambda>t h. Inr (Some \<lparr>status = Some 1\<rparr>)),
      provider_latency = (\<lambda>t. ms)\<rparr>"

definition sample_transfer ::
  "jsstring \<Rightarrow> jsstring \<Rightarrow> jsstring \<Rightarrow> jsstring \<Rightarrow> jsstring option \<Rightarrow> Provider \<Rightarrow> Transfer" where
  "sample_transfer ident asset amt payload hash provider =
     \<lparr>model =
        \<lparr>transfer_id = ident, network_id = js ''base-sepolia'', wallet_id = js ''w1'',
         address_id = js ''0xa1'', destination = js ''0xd1'', asset_id = asset, amount = amt,
         unsigned_payload = payload, signed_payload = None, transaction_hash = hash\<rparr>,
      client = \<lparr>baseSepoliaProvider = provider\<rparr>,
      transaction = None\<rparr>"

text \<open>
  A platform for the examples: it returns a recipient as it is, and renders no Number (no
  example has a number inside an array).
\<close>

definition sample_platform :: Platform where
  "sample_platform = \<lparr>Number_toString = (\<lambda>n. []), getAddress = (\<lambda>s. Some s)\<rparr>"

definition sample_transaction :: "int \<Rightarrow> Transaction" where
  "sample_transaction n =
     \<lparr>chainId = 84532, nonce = n, maxPriorityFeePerGas = Some 1, maxFeePerGas = Some 2,
      gasLimit = 21000, to = None, value' = 5, data = js ''0x''\<rparr>"


text \<open>
  The same payload with the numeric fields as JSON strings.
  \<^verbatim>\<open>{"chainId":"84532","nonce":"3","maxPriorityFeePerGas":"1000000","maxFeePerGas":"1000100","gas":"21000","value":"9007199254740993","input":"0x"}\<close>
\<close>

definition payload_strings :: jsstring where
  "payload_strings =
     js (''7b'' @
        ''22636861696e4964223a223834353332222c'' @
        ''226e6f6e6365223a2233222c'' @
        ''226d61785072696f72697479466565506572476173223a2231303030303030222c'' @
        ''226d6178466565506572476173223a2231303030313030222c'' @
        ''22676173223a223231303030222c'' @
        ''2276616c7565223a2239303037313939323534373430393933222c'' @
        ''22696e707574223a22307822'' @
        ''7d'')"

text \<open>
  A payload without \<open>chainId\<close>.
  \<^verbatim>\<open>{"nonce":3,"maxPriorityFeePerGas":1000000,"maxFeePerGas":1000100,"gas":21000,"value":1,"input":"0x"}\<close>
\<close>

definition payload_no_chainId :: jsstring where
  "payload_no_chainId =
     js (''7b'' @
        ''226e6f6e6365223a332c'' @
        ''226d61785072696f72697479466565506572476173223a313030303030302c'' @
        ''226d6178466565506572476173223a313030303130302c'' @
        ''22676173223a32313030302c'' @
        ''2276616c7565223a312c'' @
        ''22696e707574223a22307822'' @
        ''7d'')"

section \<open>Predicates of the statements\<close>

text \<open>
  The errors that the built-in conversions and the ethers setters throw, as opposed to the
  errors of the class itself; the field assignments fail with no other.
\<close>

definition native_error :: "error \<Rightarrow> bool" where
  "native_error e \<longleftrightarrow> e = TypeError \<or> e = SyntaxError \<or> e = RangeError \<or> e = InvalidArgument"


text \<open>
  The clock reading at the loop test of \<open>wait\<close> before poll \<open>k\<close> (the first
  poll is poll 0) when the loop started at \<open>now\<close> and no earlier poll ended it:
  every poll is followed by one delay.
\<close>

fun poll_start :: "Transfer \<Rightarrow> rat \<Rightarrow> rat \<Rightarrow> nat \<Rightarrow> rat" where
  "poll_start this intervalSeconds now 0 = now"
| "poll_start this intervalSeconds now (Suc k) =
     poll_start this intervalSeconds (delay intervalSeconds (snd (getStatus this now))) k"

section \<open>Properties\<close>

subsection \<open>Amounts\<close>

lemma digits_value_append:
  "digits_value r acc (xs @ ys) =
     (case digits_value r acc xs of None \<Rightarrow> None | Some a \<Rightarrow> digits_value r a ys)"
  by (induction xs arbitrary: acc) (auto split: option.splits)

lemma decimal_digits: "c \<in> set (decimal n) \<Longrightarrow> 48 \<le> c \<and> c \<le> 57"
proof (induction n rule: decimal.induct)
  case (1 n)
  show ?case
  proof (cases "n < 10")
    case True
    with "1.prems" show ?thesis by (simp add: decimal.simps [of n])
  next
    case False
    with "1.prems" have "c \<in> set (decimal (n div 10)) \<or> c = 48 + n mod 10"
      by (auto simp add: decimal.simps [of n])
    then show ?thesis
    proof
      assume "c \<in> set (decimal (n div 10))"
      with "1.IH" False show ?thesis by simp
    next
      assume "c = 48 + n mod 10"
      moreover have "n mod 10 < 10" by simp
      ultimately show ?thesis by linarith
    qed
  qed
qed

lemma decimal_nonempty: "decimal n \<noteq> []"
  by (subst decimal.simps) simp

lemma digits_value_decimal: "digits_value 10 0 (decimal n) = Some n"
proof (induction n rule: decimal.induct)
  case (1 n)
  show ?case
  proof (cases "n < 10")
    case True
    then show ?thesis by (simp add: decimal.simps [of n] digit_val_def)
  next
    case False
    have d: "digit_val (48 + n mod 10) = Some (n mod 10)"
      by (simp add: digit_val_def)
    from False "1.IH" show ?thesis
      by (simp add: decimal.simps [of n] digits_value_append d)
  qed
qed

lemma digit_not_space: "48 \<le> c \<Longrightarrow> c \<le> 57 \<Longrightarrow> \<not> StrWhiteSpaceChar c"
  by (simp add: StrWhiteSpaceChar_def)

lemma trim_id:
  assumes "s \<noteq> []" "\<not> StrWhiteSpaceChar (hd s)" "\<not> StrWhiteSpaceChar (last s)"
  shows "trim s = s"
proof -
  from assms have a: "dropWhile StrWhiteSpaceChar s = s"
    by (cases s) simp_all
  from assms have "rev s \<noteq> []" "\<not> StrWhiteSpaceChar (hd (rev s))"
    by (simp_all add: hd_rev)
  then have b: "dropWhile StrWhiteSpaceChar (rev s) = rev s"
    by (cases "rev s") simp_all
  show ?thesis by (simp add: trim_def a b)
qed

lemma StringToBigInt_decimal: "StringToBigInt (decimal n) = Some (int n)"
proof -
  have ne: "decimal n \<noteq> []" by (rule decimal_nonempty)
  have dig: "\<And>c. c \<in> set (decimal n) \<Longrightarrow> 48 \<le> c \<and> c \<le> 57" by (rule decimal_digits)
  have "hd (decimal n) \<in> set (decimal n)" "last (decimal n) \<in> set (decimal n)"
    using ne by simp_all
  then have "\<not> StrWhiteSpaceChar (hd (decimal n))" "\<not> StrWhiteSpaceChar (last (decimal n))"
    using dig digit_not_space by blast+
  then have t: "trim (decimal n) = decimal n"
    using ne by (intro trim_id)
  obtain c cs where cs: "decimal n = c # cs" using ne by (cases "decimal n") auto
  have c: "48 \<le> c \<and> c \<le> 57" using dig [of c] cs by simp
  have h: "cs \<noteq> [] \<Longrightarrow> 48 \<le> hd cs \<and> hd cs \<le> 57"
    using dig [of "hd cs"] cs by (cases cs) simp_all
  have p: "parse_digits 10 (c # cs) = Some n"
    using digits_value_decimal [of n] cs by (simp add: parse_digits_def)
  have t': "trim (c # cs) = c # cs" using t cs by simp
  have "StringToBigInt (c # cs) = Some (int n)"
    using c h p by (auto simp: StringToBigInt_def t')
  then show ?thesis by (simp add: cs)
qed

lemma StringToBigInt_BigInt_toString: "StringToBigInt (BigInt_toString n) = Some n"
proof (cases "n < 0")
  case False
  then show ?thesis by (simp add: BigInt_toString_def StringToBigInt_decimal)
next
  case True
  let ?d = "decimal (nat (- n))"
  have ne: "?d \<noteq> []" by (rule decimal_nonempty)
  have dig: "\<And>c. c \<in> set ?d \<Longrightarrow> 48 \<le> c \<and> c \<le> 57" by (rule decimal_digits)
  have "last ?d \<in> set ?d" using ne by simp
  then have "\<not> StrWhiteSpaceChar (last ?d)"
    using dig digit_not_space by blast
  then have l: "\<not> StrWhiteSpaceChar (last (45 # ?d))"
    using ne by simp
  have t: "trim (45 # ?d) = 45 # ?d"
    using l by (intro trim_id) (simp_all add: StrWhiteSpaceChar_def)
  have p: "parse_digits 10 ?d = Some (nat (- n))"
    using digits_value_decimal [of "nat (- n)"] ne by (simp add: parse_digits_def)
  from True show ?thesis
    by (simp add: BigInt_toString_def StringToBigInt_def t p)
qed

lemma getAmount_BigInt_toString:
  assumes "amount (model this) = BigInt_toString n" and "getAssetId this = Eth"
  shows "getAmount Eth this = Inr (sgn n * (\<bar>n\<bar> div 10 ^ 18))"
  using assms
  by (simp add: getAmount_def BigInt_string_def StringToBigInt_BigInt_toString bigint_div_def
      WEI_PER_ETHER_def)

lemma trunc_exact_iff:
  fixes n k :: int
  assumes "0 < k"
  shows "sgn n * (\<bar>n\<bar> div k) * k = n \<longleftrightarrow> k dvd n"
proof (cases "0 \<le> n")
  case True
  then have "sgn n * (\<bar>n\<bar> div k) = n div k"
    by (cases "n = 0") (simp_all add: sgn_if)
  then show ?thesis
    by (metis dvd_div_mult_self dvd_triv_right)
next
  case False
  then have "sgn n * (\<bar>n\<bar> div k) = - ((- n) div k)"
    by (simp add: sgn_if)
  moreover have "- ((- n) div k) * k = n \<longleftrightarrow> k dvd (- n)"
    by (metis dvd_div_mult_self dvd_triv_right minus_mult_left equation_minus_iff dvd_minus_iff mult_minus_left)
  ultimately show ?thesis by simp
qed

text \<open>
  C1 (as amended). For a record whose asset is the network-native asset and whose stored
  amount is the decimal numeral of an integer \<open>n\<close>, \<open>getAmount\<close> returns the BigInt
  quotient of \<open>n\<close> by 10^18, truncated towards zero. The integers are arbitrary
  precision, so nothing is rounded at any magnitude, but the fraction is dropped: the
  result times 10^18 is \<open>n\<close> exactly when 10^18 divides \<open>n\<close>.
\<close>

theorem getAmount_native_quotient:
  assumes "amount (model this) = BigInt_toString n" and "getAssetId this = Eth"
  shows "getAmount Eth this = Inr (sgn n * (\<bar>n\<bar> div 10 ^ 18)) \<and>
         (sgn n * (\<bar>n\<bar> div 10 ^ 18) * 10 ^ 18 = n \<longleftrightarrow> 10 ^ 18 dvd n)"
  using getAmount_BigInt_toString [OF assms] trunc_exact_iff [of "10 ^ 18" n] by simp

lemma sample_amount:
  "amount (model (sample_transfer i a m p h pr)) = m"
  "getAssetId (sample_transfer i a m p h pr) = a"
  by (simp_all add: sample_transfer_def getAssetId_def)

theorem getAmount_native_quotient_witness:
  "getAmount (js ''eth'')
     (sample_transfer (js ''t1'') (js ''eth'') (js ''1000000000000000000000000000000'') [] None
        quiet_provider) = Inr 1000000000000 \<and>
   getAmount (js ''eth'')
     (sample_transfer (js ''t1'') (js ''eth'') (js ''2500000000000000000'') [] None
        quiet_provider) = Inr 2"
proof -
  have a: "js ''1000000000000000000000000000000'' = BigInt_toString (10 ^ 30)"
    by (simp add: BigInt_toString_def decimal.simps js_def)
  have b: "js ''2500000000000000000'' = BigInt_toString 2500000000000000000"
    by (simp add: BigInt_toString_def decimal.simps js_def)
  have "getAmount (js ''eth'')
     (sample_transfer (js ''t1'') (js ''eth'') (js ''1000000000000000000000000000000'') [] None
        quiet_provider) = Inr (sgn (10 ^ 30) * (\<bar>10 ^ 30\<bar> div 10 ^ 18))"
    using getAmount_native_quotient
      [of "sample_transfer (js ''t1'') (js ''eth'') (js ''1000000000000000000000000000000'') [] None
        quiet_provider" "10 ^ 30" "js ''eth''"]
    by (simp only: sample_amount a simp_thms)
  moreover have "getAmount (js ''eth'')
     (sample_transfer (js ''t1'') (js ''eth'') (js ''2500000000000000000'') [] None
        quiet_provider) = Inr (sgn 2500000000000000000 * (\<bar>2500000000000000000\<bar> div 10 ^ 18))"
    using getAmount_native_quotient
      [of "sample_transfer (js ''t1'') (js ''eth'') (js ''2500000000000000000'') [] None
        quiet_provider" "2500000000000000000" "js ''eth''"]
    by (simp only: sample_amount b simp_thms)
  ultimately show ?thesis by simp
qed

text \<open>
  The atomic amount 2500000000000000000 of the native asset is returned as 2, which is
  not 2.5.
\<close>

theorem getAmount_fraction_counterexample:
  "getAmount (js ''eth'')
     (sample_transfer (js ''t1'') (js ''eth'') (js ''2500000000000000000'') [] None
        quiet_provider) = Inr 2 \<and>
   rat_of_int 2 \<noteq> 2500000000000000000 / 10 ^ 18"
  by (simp add: getAmount_def sample_transfer_def getAssetId_def BigInt_string_def
      StringToBigInt_def js_def trim_def StrWhiteSpaceChar_def parse_digits_def digit_val_def
      bigint_div_def WEI_PER_ETHER_def)

subsection \<open>Decoding the unsigned payload\<close>

lemma match_pairs_snoc:
  "even (length p) \<Longrightarrow> list_all (\<lambda>c. \<not> LineTerminator c) p \<Longrightarrow> match_pairs (p @ [x]) = match_pairs p"
  by (induction p rule: match_pairs.induct) simp_all

lemma ToString_join_error:
  "(ToString P v = Inl e \<longrightarrow> e = TypeError)"
  "(join P vs = Inl e \<longrightarrow> e = TypeError)"
  by (induction P v and P vs rule: ToString_join.induct)
     (auto split: if_splits sum.splits)

lemma BigInt_error: "BigInt P x = Inl e \<Longrightarrow> native_error e"
  using ToString_join_error(2) [of P _ e]
  by (auto simp: BigInt_def BigInt_string_def native_error_def
      split: option.splits json.splits number.splits if_splits sum.splits)

lemma get_property_error: "get_property v name = Inl e \<Longrightarrow> native_error e"
  by (auto simp: get_property_def native_error_def split: json.splits)

lemma BigInt_property_error: "BigInt_property P v name = Inl e \<Longrightarrow> native_error e"
  using BigInt_error get_property_error
  by (auto simp: BigInt_property_def and_then_def split: sum.splits)

lemma set_nonce_error: "set_nonce n = Inl e \<Longrightarrow> native_error e"
  by (auto simp: set_nonce_def native_error_def split: if_splits)

lemma set_to_error: "set_to P x = Inl e \<Longrightarrow> native_error e"
  by (auto simp: set_to_def native_error_def split: option.splits json.splits)

lemma set_data_error: "set_data x = Inl e \<Longrightarrow> native_error e"
  by (auto simp: set_data_def native_error_def split: option.splits json.splits if_splits)

lemma and_then_error:
  assumes "and_then r f = Inl e"
    and "\<And>e. r = Inl e \<Longrightarrow> Q e" and "\<And>x e. f x = Inl e \<Longrightarrow> Q e"
  shows "Q e"
  using assms by (cases r) (auto simp: and_then_def)

lemma assign_fields_error:
  assumes "assign_fields P v = Inl e"
  shows "native_error e"
  using assms unfolding assign_fields_def
  by (elim and_then_error BigInt_property_error set_nonce_error set_to_error set_data_error
      get_property_error) simp_all

lemma and_then_Inl: "and_then (Inl e) f = Inl e"
  by (simp add: and_then_def)

lemma and_then_fails1: "r = Inl e' \<Longrightarrow> \<exists>e. and_then r f = Inl e"
  by (simp add: and_then_def)

lemma and_then_fails2: "(\<And>x. \<exists>e. f x = Inl e) \<Longrightarrow> \<exists>e. and_then r f = Inl e"
  by (cases r) (auto simp: and_then_def)

lemma BigInt_missing: "BigInt P None = Inl TypeError" "BigInt P (Some JNull) = Inl TypeError"
  by (simp_all add: BigInt_def)

lemma set_data_missing: "set_data None = Inl InvalidArgument" "set_data (Some JNull) = Inl InvalidArgument"
  by (simp_all add: set_data_def)

lemma assign_fields_missing:
  assumes "name \<in> {js ''chainId'', js ''nonce'', js ''maxPriorityFeePerGas'', js ''maxFeePerGas'',
             js ''gas'', js ''value'', js ''input''}"
    and "get_property v name = Inr None \<or> get_property v name = Inr (Some JNull)"
  shows "\<exists>e. assign_fields P v = Inl e"
proof -
  have b: "name \<noteq> js ''input'' \<Longrightarrow> BigInt_property P v name = Inl TypeError"
    using assms(2) by (auto simp: BigInt_property_def and_then_def BigInt_missing)
  have d: "name = js ''input'' \<Longrightarrow>
      and_then (get_property v (js ''input'')) set_data = Inl InvalidArgument"
    using assms(2) by (auto simp: and_then_def set_data_missing)
  consider "name = js ''chainId''" | "name = js ''nonce''" | "name = js ''maxPriorityFeePerGas''"
    | "name = js ''maxFeePerGas''" | "name = js ''gas''" | "name = js ''value''" | "name = js ''input''"
    using assms(1) by auto
  then show ?thesis
  proof cases
    case 1
    with b have "BigInt_property P v (js ''chainId'') = Inl TypeError" by (simp add: js_def)
    then show ?thesis unfolding assign_fields_def by (simp add: and_then_Inl)
  next
    case 2
    with b have h: "BigInt_property P v (js ''nonce'') = Inl TypeError" by (simp add: js_def)
    show ?thesis unfolding assign_fields_def
      by (rule and_then_fails2, rule and_then_fails1, simp add: h and_then_Inl)
  next
    case 3
    with b have h: "BigInt_property P v (js ''maxPriorityFeePerGas'') = Inl TypeError" by (simp add: js_def)
    show ?thesis unfolding assign_fields_def
      by (rule and_then_fails2, rule and_then_fails2, rule and_then_fails1, simp add: h and_then_Inl)
  next
    case 4
    with b have h: "BigInt_property P v (js ''maxFeePerGas'') = Inl TypeError" by (simp add: js_def)
    show ?thesis unfolding assign_fields_def
      by (rule and_then_fails2, rule and_then_fails2, rule and_then_fails2, rule and_then_fails1, simp add: h and_then_Inl)
  next
    case 5
    with b have h: "BigInt_property P v (js ''gas'') = Inl TypeError" by (simp add: js_def)
    show ?thesis unfolding assign_fields_def
      by (rule and_then_fails2, rule and_then_fails2, rule and_then_fails2, rule and_then_fails2, rule and_then_fails1, simp add: h and_then_Inl)
  next
    case 6
    with b have h: "BigInt_property P v (js ''value'') = Inl TypeError" by (simp add: js_def)
    show ?thesis unfolding assign_fields_def
      by (rule and_then_fails2, rule and_then_fails2, rule and_then_fails2, rule and_then_fails2, rule and_then_fails2, rule and_then_fails2, rule and_then_fails1, simp add: h and_then_Inl)
  next
    case 7
    with d have h: "and_then (get_property v (js ''input'')) set_data = Inl InvalidArgument" by simp
    show ?thesis unfolding assign_fields_def
      by (rule and_then_fails2, rule and_then_fails2, rule and_then_fails2, rule and_then_fails2, rule and_then_fails2, rule and_then_fails2, rule and_then_fails2, rule and_then_fails1, simp add: h and_then_Inl)
  qed
qed





lemmas payload_eval =
  js_def LineTerminator_def hex_digit_def parseInt16_def ToUint8_def digit_val_def
  StrWhiteSpaceChar_def utf16_units_def TextDecoder_decode_def Let_def
  JSON_parse_def is_digit_def hex4_def lex_number_def opt_minus_def digits_def opt_fraction_def
  opt_sign_def opt_exponent_def decimal_value_def number_value_def round_double_def
  round_half_even_def floor_log2_def bit_length.simps rawPayload_def parse_payload_def

lemmas fields_eval =
  get_property_def BigInt_def BigInt_string_def StringToBigInt_def trim_def parse_digits_def
  set_nonce_def set_to_def set_data_def lower_hex_def and_then_def BigInt_property_def
  assign_fields_def decode_payload_def js_def digit_val_def hex_digit_def StrWhiteSpaceChar_def


lemma parse_payload_strings:
  "parse_payload payload_strings =
     Inr (JObj [(js ''chainId'', JStr (js ''84532'')), (js ''nonce'', JStr (js ''3'')),
                (js ''maxPriorityFeePerGas'', JStr (js ''1000000'')),
                (js ''maxFeePerGas'', JStr (js ''1000100'')), (js ''gas'', JStr (js ''21000'')),
                (js ''value'', JStr (js ''9007199254740993'')), (js ''input'', JStr (js ''0x''))])"
  by (simp add: payload_strings_def payload_eval)

lemma parse_payload_no_chainId:
  "parse_payload payload_no_chainId =
     Inr (JObj [(js ''nonce'', JNum (Finite 3)),
                (js ''maxPriorityFeePerGas'', JNum (Finite 1000000)),
                (js ''maxFeePerGas'', JNum (Finite 1000100)), (js ''gas'', JNum (Finite 21000)),
                (js ''value'', JNum (Finite 1)), (js ''input'', JStr (js ''0x''))])"
  by (simp add: payload_no_chainId_def payload_eval)


lemma decode_payload_strings:
  "decode_payload P payload_strings =
     Inr \<lparr>chainId = 84532, nonce = 3, maxPriorityFeePerGas = Some 1000000,
          maxFeePerGas = Some 1000100, gasLimit = 21000, to = None,
          value' = 9007199254740993, data = js ''0x''\<rparr>"
  unfolding decode_payload_def parse_payload_strings by (simp add: fields_eval)

lemma decode_payload_no_chainId: "decode_payload P payload_no_chainId = Inl TypeError"
  unfolding decode_payload_def parse_payload_no_chainId by (simp add: fields_eval)

lemma match_pairs_short: "length p < 2 \<Longrightarrow> match_pairs p = []"
  by (cases p rule: match_pairs.cases) simp_all

lemma parse_payload_snoc:
  assumes "even (length p)" and "list_all (\<lambda>c. \<not> LineTerminator c) p"
  shows "parse_payload (p @ [x]) = parse_payload p"
  by (simp add: parse_payload_def rawPayload_def match_pairs_snoc [OF assms])

lemma decode_payload_snoc:
  assumes "even (length p)" and "list_all (\<lambda>c. \<not> LineTerminator c) p"
  shows "decode_payload P (p @ [x]) = decode_payload P p"
  by (simp add: decode_payload_def parse_payload_snoc [OF assms])

lemma decode_payload_unparsable:
  "decode_payload P p = Inl (InvalidUnsignedPayload (js ''Unable to parse unsigned payload'')) \<longleftrightarrow>
   match_pairs p = []"
proof
  assume "match_pairs p = []"
  then show "decode_payload P p = Inl (InvalidUnsignedPayload (js ''Unable to parse unsigned payload''))"
    by (simp add: decode_payload_def parse_payload_def rawPayload_def and_then_def)
next
  assume a: "decode_payload P p = Inl (InvalidUnsignedPayload (js ''Unable to parse unsigned payload''))"
  show "match_pairs p = []"
  proof (rule ccontr)
    assume n: "match_pairs p \<noteq> []"
    have m: "js ''Unable to decode unsigned payload JSON'' \<noteq> js ''Unable to parse unsigned payload''"
      by (simp add: js_def)
    show False
    proof (cases "parse_payload p")
      case (Inl e)
      with n m a show False
        by (auto simp: decode_payload_def parse_payload_def rawPayload_def and_then_def
            split: option.splits)
    next
      case (Inr v)
      with a have "assign_fields P v = Inl (InvalidUnsignedPayload (js ''Unable to parse unsigned payload''))"
        by (simp add: decode_payload_def and_then_def)
      from assign_fields_error [OF this] show False
        by (simp add: native_error_def)
    qed
  qed
qed

lemma decode_payload_0x1:
  "decode_payload P (js ''0x1'') = Inl (InvalidUnsignedPayload (js ''Unable to decode unsigned payload JSON''))"
  by (simp add: decode_payload_def and_then_def payload_eval)

text \<open>
  C3 (as amended). Decoding fails with InvalidUnsignedPayload "Unable to parse unsigned
  payload" exactly when the payload has no two adjacent characters that are not line
  terminators, as the empty and the one-character strings. Neither the length nor the
  characters are checked otherwise: the last character of an odd-length payload is left
  out (a payload of even length without line terminators decodes the same with one more
  character appended), and a pair that is not two hexadecimal digits is read by
  \<open>parseInt\<close>. The string "0x1" is the byte 0, which is not JSON: it raises
  InvalidUnsignedPayload "Unable to decode unsigned payload JSON".
\<close>

theorem decode_payload_malformed:
  "(decode_payload P p = Inl (InvalidUnsignedPayload (js ''Unable to parse unsigned payload'')) \<longleftrightarrow>
      match_pairs p = []) \<and>
   (length p < 2 \<longrightarrow> match_pairs p = []) \<and>
   (even (length p) \<and> list_all (\<lambda>c. \<not> LineTerminator c) p \<longrightarrow>
      decode_payload P (p @ [x]) = decode_payload P p) \<and>
   decode_payload P (js ''0x1'') =
     Inl (InvalidUnsignedPayload (js ''Unable to decode unsigned payload JSON''))"
  using decode_payload_unparsable decode_payload_snoc decode_payload_0x1 match_pairs_short
  by blast

lemma payload_strings_shape:
  "even (length payload_strings)" "list_all (\<lambda>c. \<not> LineTerminator c) payload_strings"
  by (simp_all add: payload_strings_def js_def LineTerminator_def)

theorem decode_payload_malformed_witness:
  "decode_payload sample_platform (js ''1'') =
     Inl (InvalidUnsignedPayload (js ''Unable to parse unsigned payload'')) \<and>
   decode_payload sample_platform (payload_strings @ js ''1'') =
     decode_payload sample_platform payload_strings \<and>
   decode_payload sample_platform (js ''0x1'') =
     Inl (InvalidUnsignedPayload (js ''Unable to decode unsigned payload JSON''))"
proof -
  have "length (js ''1'') < 2" by (simp add: js_def)
  with decode_payload_malformed [of sample_platform "js ''1''" 49]
  have a: "decode_payload sample_platform (js ''1'') =
     Inl (InvalidUnsignedPayload (js ''Unable to parse unsigned payload''))" by blast
  have x: "js ''1'' = [49]" by (simp add: js_def)
  from decode_payload_malformed [of sample_platform payload_strings 49] payload_strings_shape
  have b: "decode_payload sample_platform (payload_strings @ js ''1'') =
     decode_payload sample_platform payload_strings"
    unfolding x by blast
  from decode_payload_malformed [of sample_platform payload_strings 49]
  have c: "decode_payload sample_platform (js ''0x1'') =
     Inl (InvalidUnsignedPayload (js ''Unable to decode unsigned payload JSON''))" by blast
  from a b c show ?thesis by blast
qed

text \<open>
  An odd-length payload, and a payload with characters that are not hexadecimal digits,
  decode to a transaction.
\<close>

theorem decode_payload_malformed_counterexample:
  "odd (length (payload_strings @ js ''1'')) \<and>
   decode_payload sample_platform (payload_strings @ js ''1'') =
     Inr \<lparr>chainId = 84532, nonce = 3, maxPriorityFeePerGas = Some 1000000,
          maxFeePerGas = Some 1000100, gasLimit = 21000, to = None,
          value' = 9007199254740993, data = js ''0x''\<rparr> \<and>
   \<not> list_all hex_digit (js ''9z'' @ payload_strings) \<and>
   decode_payload sample_platform (js ''9z'' @ payload_strings) =
     Inr \<lparr>chainId = 84532, nonce = 3, maxPriorityFeePerGas = Some 1000000,
          maxFeePerGas = Some 1000100, gasLimit = 21000, to = None,
          value' = 9007199254740993, data = js ''0x''\<rparr>"
proof -
  have x: "js ''1'' = [49]" by (simp add: js_def)
  have a: "odd (length (payload_strings @ js ''1''))"
    using payload_strings_shape(1) by (simp add: x)
  have b: "decode_payload sample_platform (payload_strings @ js ''1'') =
     decode_payload sample_platform payload_strings"
    unfolding x by (rule decode_payload_snoc [OF payload_strings_shape])
  have c: "\<not> list_all hex_digit (js ''9z'' @ payload_strings)"
    by (simp add: js_def hex_digit_def digit_val_def)
  have "parse_payload (js ''9z'' @ payload_strings) = parse_payload payload_strings"
    unfolding parse_payload_strings by (simp add: payload_strings_def payload_eval)
  then have d: "decode_payload sample_platform (js ''9z'' @ payload_strings) =
     decode_payload sample_platform payload_strings"
    by (simp add: decode_payload_def)
  from a b c d show ?thesis by (simp add: decode_payload_strings)
qed




text \<open>
  C7 (as amended). When the payload is JSON in which one of \<open>chainId\<close>, \<open>nonce\<close>,
  \<open>maxPriorityFeePerGas\<close>, \<open>maxFeePerGas\<close>, \<open>gas\<close>, \<open>value\<close> or \<open>input\<close> is
  missing or null, \<open>getTransaction\<close> throws and memoizes nothing. A missing \<open>to\<close>
  is accepted, and a numeric field may be a string.
\<close>

theorem getTransaction_missing_field:
  assumes "transaction this = None"
    and "parse_payload (getUnsignedPayload this) = Inr v"
    and "name \<in> {js ''chainId'', js ''nonce'', js ''maxPriorityFeePerGas'', js ''maxFeePerGas'',
             js ''gas'', js ''value'', js ''input''}"
    and "get_property v name = Inr None \<or> get_property v name = Inr (Some JNull)"
  shows "\<exists>e. getTransaction P this = (Inl e, this)"
proof -
  from assign_fields_missing [OF assms(3,4)] obtain e where e: "assign_fields P v = Inl e"
    by blast
  with assms(1,2) have "getTransaction P this = (Inl e, this)"
    by (simp add: getTransaction_def decode_payload_def and_then_def)
  then show ?thesis by blast
qed

theorem getTransaction_missing_field_witness:
  "\<exists>e. getTransaction sample_platform
      (sample_transfer (js ''t1'') (js ''eth'') (js ''1'') payload_no_chainId None quiet_provider) =
      (Inl e, sample_transfer (js ''t1'') (js ''eth'') (js ''1'') payload_no_chainId None quiet_provider)"
proof -
  let ?t = "sample_transfer (js ''t1'') (js ''eth'') (js ''1'') payload_no_chainId None quiet_provider"
  have a: "transaction ?t = None" by (simp add: sample_transfer_def)
  have b: "getUnsignedPayload ?t = payload_no_chainId"
    by (simp add: sample_transfer_def getUnsignedPayload_def)
  have c: "js ''chainId'' \<in> {js ''chainId'', js ''nonce'', js ''maxPriorityFeePerGas'',
      js ''maxFeePerGas'', js ''gas'', js ''value'', js ''input''}" by simp
  let ?v = "JObj [(js ''nonce'', JNum (Finite 3)),
                (js ''maxPriorityFeePerGas'', JNum (Finite 1000000)),
                (js ''maxFeePerGas'', JNum (Finite 1000100)), (js ''gas'', JNum (Finite 21000)),
                (js ''value'', JNum (Finite 1)), (js ''input'', JStr (js ''0x''))]"
  have p: "parse_payload (getUnsignedPayload ?t) = Inr ?v"
    unfolding b by (rule parse_payload_no_chainId)
  have g: "get_property ?v (js ''chainId'') = Inr None"
    by (simp add: get_property_def js_def)
  show ?thesis
    by (rule getTransaction_missing_field [OF a p c disjI1 [OF g]])
qed

text \<open>
  A payload that has no \<open>to\<close> member and whose numeric fields are strings decodes to a
  transaction.
\<close>

theorem getTransaction_missing_field_counterexample:
  "parse_payload payload_strings =
     Inr (JObj [(js ''chainId'', JStr (js ''84532'')), (js ''nonce'', JStr (js ''3'')),
                (js ''maxPriorityFeePerGas'', JStr (js ''1000000'')),
                (js ''maxFeePerGas'', JStr (js ''1000100'')), (js ''gas'', JStr (js ''21000'')),
                (js ''value'', JStr (js ''9007199254740993'')), (js ''input'', JStr (js ''0x''))]) \<and>
   get_property
     (JObj [(js ''chainId'', JStr (js ''84532'')), (js ''nonce'', JStr (js ''3'')),
            (js ''maxPriorityFeePerGas'', JStr (js ''1000000'')),
            (js ''maxFeePerGas'', JStr (js ''1000100'')), (js ''gas'', JStr (js ''21000'')),
            (js ''value'', JStr (js ''9007199254740993'')), (js ''input'', JStr (js ''0x''))])
     (js ''to'') = Inr None \<and>
   getTransaction sample_platform
     (sample_transfer (js ''t1'') (js ''eth'') (js ''1'') payload_strings None quiet_provider) =
   (Inr \<lparr>chainId = 84532, nonce = 3, maxPriorityFeePerGas = Some 1000000,
         maxFeePerGas = Some 1000100, gasLimit = 21000, to = None,
         value' = 9007199254740993, data = js ''0x''\<rparr>,
    (sample_transfer (js ''t1'') (js ''eth'') (js ''1'') payload_strings None quiet_provider)
       \<lparr>transaction := Some \<lparr>chainId = 84532, nonce = 3, maxPriorityFeePerGas = Some 1000000,
         maxFeePerGas = Some 1000100, gasLimit = 21000, to = None,
         value' = 9007199254740993, data = js ''0x''\<rparr>\<rparr>)"
proof -
  have "get_property
     (JObj [(js ''chainId'', JStr (js ''84532'')), (js ''nonce'', JStr (js ''3'')),
            (js ''maxPriorityFeePerGas'', JStr (js ''1000000'')),
            (js ''maxFeePerGas'', JStr (js ''1000100'')), (js ''gas'', JStr (js ''21000'')),
            (js ''value'', JStr (js ''9007199254740993'')), (js ''input'', JStr (js ''0x''))])
     (js ''to'') = Inr None"
    by (simp add: get_property_def js_def)
  moreover have "getTransaction sample_platform
     (sample_transfer (js ''t1'') (js ''eth'') (js ''1'') payload_strings None quiet_provider) =
   (Inr \<lparr>chainId = 84532, nonce = 3, maxPriorityFeePerGas = Some 1000000,
         maxFeePerGas = Some 1000100, gasLimit = 21000, to = None,
         value' = 9007199254740993, data = js ''0x''\<rparr>,
    (sample_transfer (js ''t1'') (js ''eth'') (js ''1'') payload_strings None quiet_provider)
       \<lparr>transaction := Some \<lparr>chainId = 84532, nonce = 3, maxPriorityFeePerGas = Some 1000000,
         maxFeePerGas = Some 1000100, gasLimit = 21000, to = None,
         value' = 9007199254740993, data = js ''0x''\<rparr>\<rparr>)"
    by (simp add: getTransaction_def getUnsignedPayload_def sample_transfer_def
        decode_payload_strings)
  ultimately show ?thesis using parse_payload_strings by simp
qed

subsection \<open>The memoized transaction\<close>

lemma getTransaction_memo:
  "getTransaction P (this\<lparr>transaction := Some tx\<rparr>) = (Inr tx, this\<lparr>transaction := Some tx\<rparr>)"
  by (simp add: getTransaction_def)

lemma getTransaction_idem:
  "getTransaction P (snd (getTransaction P this)) = getTransaction P this"
  by (simp add: getTransaction_def split: option.splits sum.splits)

text \<open>
  C9. Calling \<open>getTransaction\<close> again on the Transfer as the first call left it gives
  the same result and leaves the Transfer as it is; once the cell holds a transaction,
  \<open>getTransaction\<close> returns it without looking at the payload. A first call that
  succeeds fills the cell with the transaction it returns, which later calls return even
  if the model is replaced; a call that fails leaves the Transfer as it was; and with an
  empty cell the result is the decoding of the unsigned payload.
\<close>

theorem getTransaction_deterministic:
  "getTransaction P (snd (getTransaction P this)) = getTransaction P this \<and>
   getTransaction P (this\<lparr>transaction := Some tx\<rparr>) = (Inr tx, this\<lparr>transaction := Some tx\<rparr>) \<and>
   (fst (getTransaction P this) = Inr tx' \<longrightarrow>
      transaction (snd (getTransaction P this)) = Some tx' \<and>
      fst (getTransaction P (snd (getTransaction P this)\<lparr>model := m\<rparr>)) = Inr tx') \<and>
   (fst (getTransaction P this) = Inl e \<longrightarrow> snd (getTransaction P this) = this) \<and>
   (transaction this = None \<longrightarrow>
      fst (getTransaction P this) = decode_payload P (getUnsignedPayload this))"
  by (simp add: getTransaction_def split: option.splits sum.splits)

theorem getTransaction_deterministic_witness:
  "getTransaction sample_platform
     (snd (getTransaction sample_platform
        (sample_transfer (js ''t1'') (js ''eth'') (js ''1'') payload_strings None quiet_provider))) =
   (Inr \<lparr>chainId = 84532, nonce = 3, maxPriorityFeePerGas = Some 1000000,
         maxFeePerGas = Some 1000100, gasLimit = 21000, to = None,
         value' = 9007199254740993, data = js ''0x''\<rparr>,
    (sample_transfer (js ''t1'') (js ''eth'') (js ''1'') payload_strings None quiet_provider)
       \<lparr>transaction := Some \<lparr>chainId = 84532, nonce = 3, maxPriorityFeePerGas = Some 1000000,
         maxFeePerGas = Some 1000100, gasLimit = 21000, to = None,
         value' = 9007199254740993, data = js ''0x''\<rparr>\<rparr>) \<and>
   transaction (snd (getTransaction sample_platform
        (sample_transfer (js ''t1'') (js ''eth'') (js ''1'') payload_strings None quiet_provider))) =
     Some \<lparr>chainId = 84532, nonce = 3, maxPriorityFeePerGas = Some 1000000,
         maxFeePerGas = Some 1000100, gasLimit = 21000, to = None,
         value' = 9007199254740993, data = js ''0x''\<rparr> \<and>
   fst (getTransaction sample_platform
        (snd (getTransaction sample_platform
           (sample_transfer (js ''t1'') (js ''eth'') (js ''1'') payload_strings None quiet_provider))
         \<lparr>model := model (sample_transfer (js ''t2'') (js ''usdc'') (js ''2'') [] None
            quiet_provider)\<rparr>)) =
     Inr \<lparr>chainId = 84532, nonce = 3, maxPriorityFeePerGas = Some 1000000,
         maxFeePerGas = Some 1000100, gasLimit = 21000, to = None,
         value' = 9007199254740993, data = js ''0x''\<rparr>"
proof -
  have "fst (getTransaction sample_platform
     (sample_transfer (js ''t1'') (js ''eth'') (js ''1'') payload_strings None quiet_provider)) =
   Inr \<lparr>chainId = 84532, nonce = 3, maxPriorityFeePerGas = Some 1000000,
         maxFeePerGas = Some 1000100, gasLimit = 21000, to = None,
         value' = 9007199254740993, data = js ''0x''\<rparr>"
    by (simp add: getTransaction_def getUnsignedPayload_def sample_transfer_def
        decode_payload_strings)
  moreover have "getTransaction sample_platform
     (sample_transfer (js ''t1'') (js ''eth'') (js ''1'') payload_strings None quiet_provider) =
   (Inr \<lparr>chainId = 84532, nonce = 3, maxPriorityFeePerGas = Some 1000000,
         maxFeePerGas = Some 1000100, gasLimit = 21000, to = None,
         value' = 9007199254740993, data = js ''0x''\<rparr>,
    (sample_transfer (js ''t1'') (js ''eth'') (js ''1'') payload_strings None quiet_provider)
       \<lparr>transaction := Some \<lparr>chainId = 84532, nonce = 3, maxPriorityFeePerGas = Some 1000000,
         maxFeePerGas = Some 1000100, gasLimit = 21000, to = None,
         value' = 9007199254740993, data = js ''0x''\<rparr>\<rparr>)"
    by (simp add: getTransaction_def getUnsignedPayload_def sample_transfer_def
        decode_payload_strings)
  ultimately show ?thesis
    using getTransaction_deterministic
      [of sample_platform
        "sample_transfer (js ''t1'') (js ''eth'') (js ''1'') payload_strings None quiet_provider"
        "sample_transaction 1"
        "\<lparr>chainId = 84532, nonce = 3, maxPriorityFeePerGas = Some 1000000,
          maxFeePerGas = Some 1000100, gasLimit = 21000, to = None,
          value' = 9007199254740993, data = js ''0x''\<rparr>"
        "model (sample_transfer (js ''t2'') (js ''usdc'') (js ''2'') [] None quiet_provider)"
        TypeError]
    by simp
qed

lemma getTransaction_after_set:
  "getTransaction P (setSignedTransaction tx this) = (Inr tx, setSignedTransaction tx this)"
  by (simp add: setSignedTransaction_def getTransaction_memo)

lemma getTransaction_after_set_funpow:
  "((\<lambda>s. snd (getTransaction P s)) ^^ n) (setSignedTransaction tx this) = setSignedTransaction tx this"
  by (induction n) (simp_all add: getTransaction_after_set)

text \<open>
  C10. After \<open>setSignedTransaction(tx)\<close>, \<open>getTransaction\<close> returns \<open>tx\<close> and
  leaves the Transfer unchanged, so every later call returns \<open>tx\<close> as well, whatever
  the unsigned payload is.
\<close>

theorem setSignedTransaction_getTransaction:
  "getTransaction P (setSignedTransaction tx this) = (Inr tx, setSignedTransaction tx this) \<and>
   fst (getTransaction P (((\<lambda>s. snd (getTransaction P s)) ^^ n) (setSignedTransaction tx this))) = Inr tx"
  by (simp add: getTransaction_after_set getTransaction_after_set_funpow)

theorem setSignedTransaction_getTransaction_witness:
  "fst (getTransaction sample_platform
     (setSignedTransaction (sample_transaction 7)
        (sample_transfer (js ''t1'') (js ''eth'') (js ''1'') payload_strings None quiet_provider))) =
     Inr (sample_transaction 7) \<and>
   fst (getTransaction sample_platform
     (sample_transfer (js ''t1'') (js ''eth'') (js ''1'') payload_strings None quiet_provider)) \<noteq>
     Inr (sample_transaction 7)"
proof -
  have "fst (getTransaction sample_platform
     (sample_transfer (js ''t1'') (js ''eth'') (js ''1'') payload_strings None quiet_provider)) \<noteq>
     Inr (sample_transaction 7)"
    by (simp add: getTransaction_def getUnsignedPayload_def sample_transfer_def
        decode_payload_strings sample_transaction_def)
  with setSignedTransaction_getTransaction
    [of sample_platform "sample_transaction 7"
      "sample_transfer (js ''t1'') (js ''eth'') (js ''1'') payload_strings None quiet_provider" 0]
  show ?thesis by simp
qed

text \<open>
  C5 (as amended). \<open>setSignedTransaction\<close> stores the transaction it is given in the
  cell, whatever the cell held: of two calls the later one wins. It never empties the cell
  and it leaves the model, and so the signed payload of the model, as it is.
\<close>

theorem setSignedTransaction_last_wins:
  "transaction (setSignedTransaction tx' (setSignedTransaction tx this)) = Some tx' \<and>
   getSignedPayload (setSignedTransaction tx this) = getSignedPayload this \<and>
   model (setSignedTransaction tx this) = model this"
  by (simp add: setSignedTransaction_def getSignedPayload_def)

text \<open>
  A second signed transaction replaces the first.
\<close>

theorem setSignedTransaction_overwrite_counterexample:
  "transaction (setSignedTransaction (sample_transaction 1)
     (sample_transfer (js ''t1'') (js ''eth'') (js ''1'') [] None quiet_provider)) =
     Some (sample_transaction 1) \<and>
   transaction (setSignedTransaction (sample_transaction 2)
     (setSignedTransaction (sample_transaction 1)
       (sample_transfer (js ''t1'') (js ''eth'') (js ''1'') [] None quiet_provider))) =
     Some (sample_transaction 2) \<and>
   sample_transaction 2 \<noteq> sample_transaction 1"
  by (simp add: setSignedTransaction_def sample_transaction_def)

subsection \<open>Status resolution and waiting\<close>

lemma getStatus_absent_receipt:
  assumes "getTransactionHash this = Some h" and "h \<noteq> []"
    and "provider_getTransaction (baseSepoliaProvider (client this)) now h = Inr (Some tx)"
    and "truthy_string (blockHash tx)"
    and "provider_getTransactionReceipt (baseSepoliaProvider (client this))
           (now + provider_latency (baseSepoliaProvider (client this)) now) h = Inr None"
  shows "fst (getStatus this now) = Inr FAILED"
  using assms by (simp add: getStatus_def Let_def truthy_string_def truthy_number_def)

lemma round_double_nonneg: "round_double False p q = Finite y \<Longrightarrow> 0 \<le> y"
  by (auto simp add: round_double_def Let_def split: if_splits)

lemma round_double_False: "round_double False p q \<noteq> NegInfinity"
  by (auto simp add: round_double_def Let_def split: if_splits)

lemma quotient_of_nonneg: "0 \<le> x \<Longrightarrow> quotient_of x = (a, b) \<Longrightarrow> 0 \<le> a"
  using quotient_of_div [of x a b] quotient_of_denom_pos [of x a b]
  by (simp add: zero_le_divide_iff)

lemma Number_of_rat_nonneg:
  assumes "0 \<le> x"
  shows "Number_of_rat x \<noteq> NegInfinity \<and> (Number_of_rat x = Finite y \<longrightarrow> 0 \<le> y)"
proof -
  obtain a b where q: "quotient_of x = (a, b)" by (cases "quotient_of x")
  from quotient_of_nonneg [OF assms q] have "\<not> a < 0" by simp
  with q have "Number_of_rat x = round_double False (nat \<bar>a\<bar>) (nat b)"
    by (simp add: Number_of_rat_def)
  then show ?thesis
    using round_double_nonneg round_double_False by metis
qed

lemma deadline_nonneg:
  assumes "0 \<le> T" and "Number_times_1000 (Number_of_rat T) = Finite d"
  shows "0 \<le> d"
proof (cases "Number_of_rat T")
  case (Finite v)
  with Number_of_rat_nonneg [OF assms(1), of v] have "0 \<le> v * 1000" by simp
  from Number_of_rat_nonneg [OF this, of d] assms(2) Finite show ?thesis
    by (simp add: Number_times_1000_def)
next
  case PosInfinity
  with assms(2) show ?thesis by (simp add: Number_times_1000_def)
next
  case NegInfinity
  with assms(2) show ?thesis by (simp add: Number_times_1000_def)
qed

lemma wait_loop_unroll:
  assumes "Number_times_1000 Tn = Finite d"
  shows "wait_loop this i Tn start now =
     (if now - start < d then
        (case getStatus this now of
           (Inl e, t) \<Rightarrow> Some (Inl e, t)
         | (Inr status', t) \<Rightarrow>
             if status' = COMPLETE \<or> status' = FAILED then Some (Inr this, t)
             else wait_loop this i Tn start (delay i t))
      else Some (Inl (Error (js ''Transfer timed out'')), now))"
  by (subst wait_loop.simps) (simp add: assms Number_less_def)

lemma wait_loop_timeout:
  assumes i: "0 < i" and d: "Number_times_1000 Tn = Finite d"
    and win: "\<forall>t. start \<le> t \<and> t - start < d \<longrightarrow>
                t \<le> snd (getStatus this t) \<and>
                (fst (getStatus this t) = Inr PENDING \<or> fst (getStatus this t) = Inr BROADCAST)"
  shows "start \<le> now \<Longrightarrow> d \<le> now - start + of_nat n * (i * 1000) \<Longrightarrow>
         \<exists>tf. wait_loop this i Tn start now = Some (Inl (Error (js ''Transfer timed out'')), tf) \<and>
              d \<le> tf - start \<and>
              (\<forall>D. (\<forall>t. start \<le> t \<and> t - start < d \<longrightarrow> snd (getStatus this t) \<le> t + D) \<and>
                   now - start < d + i * 1000 + D \<longrightarrow> tf - start < d + i * 1000 + D)"
proof (induction n arbitrary: now)
  case 0
  then have "\<not> now - start < d" by simp
  then have "wait_loop this i Tn start now = Some (Inl (Error (js ''Transfer timed out'')), now)"
    by (simp add: wait_loop_unroll [OF d])
  with 0 show ?case by simp
next
  case (Suc n)
  show ?case
  proof (cases "now - start < d")
    case False
    then have "wait_loop this i Tn start now = Some (Inl (Error (js ''Transfer timed out'')), now)"
      by (simp add: wait_loop_unroll [OF d])
    with False show ?thesis by simp
  next
    case True
    obtain r t where g: "getStatus this now = (r, t)" by (cases "getStatus this now")
    from win Suc.prems(1) True g have r: "r = Inr PENDING \<or> r = Inr BROADCAST" and t: "now \<le> t"
      by (metis fst_conv, metis snd_conv)
    have step: "wait_loop this i Tn start now = wait_loop this i Tn start (delay i t)"
      using True g r by (subst wait_loop_unroll [OF d]) auto
    have s: "start \<le> delay i t"
      using Suc.prems(1) t i by (simp add: delay_def)
    have "d \<le> delay i t - start + of_nat n * (i * 1000)"
      using Suc.prems(2) t by (simp add: delay_def algebra_simps)
    from Suc.IH [OF s this] obtain tf where
      tf: "wait_loop this i Tn start (delay i t) = Some (Inl (Error (js ''Transfer timed out'')), tf)"
        "d \<le> tf - start"
        "\<forall>D. (\<forall>t. start \<le> t \<and> t - start < d \<longrightarrow> snd (getStatus this t) \<le> t + D) \<and>
             delay i t - start < d + i * 1000 + D \<longrightarrow> tf - start < d + i * 1000 + D"
      by blast
    have "tf - start < d + i * 1000 + D"
      if dur: "\<forall>t. start \<le> t \<and> t - start < d \<longrightarrow> snd (getStatus this t) \<le> t + D" for D
    proof -
      from dur Suc.prems(1) True g have "t \<le> now + D" by (metis snd_conv)
      with True have "delay i t - start < d + i * 1000 + D" by (simp add: delay_def)
      with tf(3) dur show ?thesis by blast
    qed
    with tf(1,2) step show ?thesis by auto
  qed
qed

lemma wait_timeout:
  assumes i: "0 < i" and d: "Number_times_1000 (Number_of_rat T) = Finite d"
    and win: "\<forall>t. t0 \<le> t \<and> t - t0 < d \<longrightarrow>
                t \<le> snd (getStatus this t) \<and>
                (fst (getStatus this t) = Inr PENDING \<or> fst (getStatus this t) = Inr BROADCAST)"
  shows "\<exists>tf. wait this (Some i) (Some T) t0 = Some (Inl (Error (js ''Transfer timed out'')), tf) \<and>
              d \<le> tf - t0 \<and>
              (\<forall>D. (\<forall>t. t0 \<le> t \<and> t - t0 < d \<longrightarrow> snd (getStatus this t) \<le> t + D) \<and>
                   0 < d + i * 1000 + D \<longrightarrow> tf - t0 < d + i * 1000 + D)"
proof -
  obtain n :: nat where n: "d / (i * 1000) \<le> of_nat n"
    using real_arch_simple by blast
  from i n have "d \<le> t0 - t0 + of_nat n * (i * 1000)"
    by (simp add: pos_divide_le_eq)
  from wait_loop_timeout [OF i d win order_refl this] show ?thesis
    by (simp add: wait_def)
qed


lemma wait_loop_polls:
  "(\<forall>j<k. fst (getStatus this (poll_start this i now j)) = Inr PENDING \<or>
           fst (getStatus this (poll_start this i now j)) = Inr BROADCAST) \<Longrightarrow>
   (\<forall>j\<le>k. Number_less (poll_start this i now j - start) (Number_times_1000 Tn)) \<Longrightarrow>
   getStatus this (poll_start this i now k) = (Inr s, t) \<Longrightarrow> s = COMPLETE \<or> s = FAILED \<Longrightarrow>
   wait_loop this i Tn start now = Some (Inr this, t)"
proof (induction k arbitrary: now)
  case 0
  then show ?case by (subst wait_loop.simps) auto
next
  case (Suc k)
  let ?now' = "delay i (snd (getStatus this now))"
  from Suc.prems(2) have b: "Number_less (now - start) (Number_times_1000 Tn)"
    by (metis le0 poll_start.simps(1))
  from Suc.prems(1) have "fst (getStatus this now) = Inr PENDING \<or> fst (getStatus this now) = Inr BROADCAST"
    by (metis zero_less_Suc poll_start.simps(1))
  with b have step: "wait_loop this i Tn start now = wait_loop this i Tn start ?now'"
    by (subst wait_loop.simps) (auto split: prod.splits sum.splits)
  have 1: "\<forall>j<k. fst (getStatus this (poll_start this i ?now' j)) = Inr PENDING \<or>
           fst (getStatus this (poll_start this i ?now' j)) = Inr BROADCAST"
    using Suc.prems(1) by (metis Suc_less_eq poll_start.simps(2))
  have 2: "\<forall>j\<le>k. Number_less (poll_start this i ?now' j - start) (Number_times_1000 Tn)"
    using Suc.prems(2) by (metis Suc_le_mono poll_start.simps(2))
  have 3: "getStatus this (poll_start this i ?now' k) = (Inr s, t)"
    using Suc.prems(3) by simp
  from Suc.IH [OF 1 2 3 Suc.prems(4)] step show ?case by simp
qed

lemma Number_of_rat_eval:
  "quotient_of x = (a, b) \<Longrightarrow> round_double (a < 0) (nat \<bar>a\<bar>) (nat b) = y \<Longrightarrow> Number_of_rat x = y"
  by (simp add: Number_of_rat_def)

lemmas round_double_eval = round_double_def round_half_even_def floor_log2_def bit_length.simps


lemma deadline_1: "Number_times_1000 (Number_of_rat 1) = Finite 1000"
proof -
  have "quotient_of 1 = (1, 1)" by code_simp
  then have 1: "Number_of_rat 1 = Finite 1"
    by (rule Number_of_rat_eval) (simp add: round_double_eval)
  have "quotient_of 1000 = (1000, 1)" by code_simp
  then have "Number_of_rat 1000 = Finite 1000"
    by (rule Number_of_rat_eval) (simp add: round_double_eval)
  with 1 show ?thesis by (simp add: Number_times_1000_def)
qed

lemma deadline_1_5: "Number_times_1000 (Number_of_rat (1 / 5)) = Finite 200"
proof -
  have "quotient_of (1 / 5) = (1, 5)" by code_simp
  then have 1: "Number_of_rat (1 / 5) = Finite (3602879701896397 / 18014398509481984)"
    by (rule Number_of_rat_eval) (simp add: round_double_eval)
  have "quotient_of (3602879701896397 / 18014398509481984 * 1000) =
      (450359962737049625, 2251799813685248)" by code_simp
  then have "Number_of_rat (3602879701896397 / 18014398509481984 * 1000) = Finite 200"
    by (rule Number_of_rat_eval) (simp add: round_double_eval)
  with 1 show ?thesis unfolding Number_times_1000_def by simp
qed

lemma deadline_2007:
  "Number_times_1000 (Number_of_rat (2007 / 1000)) = Finite (8826879347785729 / 4398046511104)"
proof -
  have "quotient_of (2007 / 1000) = (2007, 1000)" by code_simp
  then have 1: "Number_of_rat (2007 / 1000) = Finite (4519362226066293 / 2251799813685248)"
    by (rule Number_of_rat_eval) (simp add: round_double_eval)
  have "quotient_of (4519362226066293 / 2251799813685248 * 1000) =
      (564920278258286625, 281474976710656)" by code_simp
  then have "Number_of_rat (4519362226066293 / 2251799813685248 * 1000) =
      Finite (8826879347785729 / 4398046511104)"
    by (rule Number_of_rat_eval) (simp add: round_double_eval)
  with 1 show ?thesis unfolding Number_times_1000_def by simp
qed

lemmas sample_eval =
  sample_transfer_def quiet_provider_def mined_provider_def slow_provider_def
  late_provider_def   getStatus_def getTransactionHash_def truthy_string_def truthy_number_def Let_def js_def

text \<open>
  C2 (as amended). When the record has a transaction hash, the provider returns a
  transaction with a block hash and returns no receipt, \<open>getStatus\<close> resolves to
  FAILED: the optional chaining on the receipt makes an absent receipt falsy, like an
  unsuccessful one.
\<close>

theorem getStatus_receipt_absent_FAILED:
  assumes "getTransactionHash this = Some h" and "h \<noteq> []"
    and "provider_getTransaction (baseSepoliaProvider (client this)) now h = Inr (Some tx)"
    and "truthy_string (blockHash tx)"
    and "provider_getTransactionReceipt (baseSepoliaProvider (client this))
           (now + provider_latency (baseSepoliaProvider (client this)) now) h = Inr None"
  shows "fst (getStatus this now) = Inr FAILED"
  using assms by (rule getStatus_absent_receipt)

theorem getStatus_receipt_absent_FAILED_witness:
  "fst (getStatus
     (sample_transfer (js ''t1'') (js ''eth'') (js ''1'') [] (Some (js ''0xh1''))
        (mined_provider None 0)) 0) = Inr FAILED"
  using getStatus_receipt_absent_FAILED
    [of "sample_transfer (js ''t1'') (js ''eth'') (js ''1'') [] (Some (js ''0xh1''))
        (mined_provider None 0)" "js ''0xh1''" 0 "\<lparr>blockHash = Some (js ''0xb1'')\<rparr>"]
  by (simp add: sample_transfer_def mined_provider_def getTransactionHash_def
      truthy_string_def js_def)

text \<open>
  A mined transaction whose receipt is not yet available does not resolve to BROADCAST.
\<close>

theorem getStatus_receipt_absent_counterexample:
  "fst (getStatus
     (sample_transfer (js ''t1'') (js ''eth'') (js ''1'') [] (Some (js ''0xh1''))
        (mined_provider None 0)) 0) \<noteq> Inr BROADCAST"
  by (simp add: sample_eval)


lemma quiet_status:
  "getStatus (sample_transfer ident a m p None quiet_provider) t = (Inr PENDING, t)"
  by (simp add: sample_eval)

lemma late_status:
  "getStatus (sample_transfer ident a m p (Some (js ''0xh1'')) (late_provider mined ms)) t =
     (if t < mined then (Inr PENDING, t + ms) else (Inr COMPLETE, t + ms + ms))"
  by (simp add: sample_eval)



text \<open>
  C8 (as amended). Let \<open>d\<close> be the deadline in milliseconds that the loop compares
  the elapsed time with: the double-precision product \<open>timeoutSeconds * 1000\<close>, a finite
  Number, for a timeout \<open>T \<ge> 0\<close>, and let the interval \<open>i\<close> be positive. If no status
  resolution started before the deadline observes a terminal state and each of them takes
  between 0 and \<open>D\<close> milliseconds, \<open>wait\<close> throws the timeout error when the
  elapsed time is at least \<open>d\<close> and less than \<open>d\<close> plus the interval plus
  \<open>D\<close>; with instantaneous resolutions (\<open>D = 0\<close>) that is less than \<open>d\<close>
  plus the interval. If polls \<open>0\<close> to \<open>k - 1\<close> observe no terminal state, polls
  \<open>0\<close> to \<open>k\<close> start before the deadline and poll \<open>k\<close> observes COMPLETE or
  FAILED, \<open>wait\<close> returns the Transfer at the moment that resolution settles, with no
  further delay or poll.
\<close>

theorem wait_timing:
  "(0 < i \<and> 0 \<le> T \<and> 0 \<le> D \<and> Number_times_1000 (Number_of_rat T) = Finite d \<and>
    (\<forall>t. t0 \<le> t \<and> t - t0 < d \<longrightarrow>
         t \<le> snd (getStatus this t) \<and> snd (getStatus this t) \<le> t + D \<and>
         (fst (getStatus this t) = Inr PENDING \<or> fst (getStatus this t) = Inr BROADCAST)) \<longrightarrow>
    (\<exists>tf. wait this (Some i) (Some T) t0 = Some (Inl (Error (js ''Transfer timed out'')), tf) \<and>
          d \<le> tf - t0 \<and> tf - t0 < d + i * 1000 + D)) \<and>
   ((\<forall>j<k. fst (getStatus this (poll_start this i t0 j)) = Inr PENDING \<or>
            fst (getStatus this (poll_start this i t0 j)) = Inr BROADCAST) \<and>
    (\<forall>j\<le>k. Number_less (poll_start this i t0 j - t0) (Number_times_1000 (Number_of_rat T))) \<and>
    getStatus this (poll_start this i t0 k) = (Inr s, t) \<and> (s = COMPLETE \<or> s = FAILED) \<longrightarrow>
    wait this (Some i) (Some T) t0 = Some (Inr this, t))"
proof (intro conjI impI)
  assume h: "0 < i \<and> 0 \<le> T \<and> 0 \<le> D \<and> Number_times_1000 (Number_of_rat T) = Finite d \<and>
    (\<forall>t. t0 \<le> t \<and> t - t0 < d \<longrightarrow>
         t \<le> snd (getStatus this t) \<and> snd (getStatus this t) \<le> t + D \<and>
         (fst (getStatus this t) = Inr PENDING \<or> fst (getStatus this t) = Inr BROADCAST))"
  then have i: "0 < i" and d: "Number_times_1000 (Number_of_rat T) = Finite d"
    and win: "\<forall>t. t0 \<le> t \<and> t - t0 < d \<longrightarrow>
         t \<le> snd (getStatus this t) \<and>
         (fst (getStatus this t) = Inr PENDING \<or> fst (getStatus this t) = Inr BROADCAST)"
    and dur: "\<forall>t. t0 \<le> t \<and> t - t0 < d \<longrightarrow> snd (getStatus this t) \<le> t + D"
    by simp_all
  from h deadline_nonneg [of T d] have "0 < d + i * 1000 + D" by simp
  with wait_timeout [OF i d win] dur
  show "\<exists>tf. wait this (Some i) (Some T) t0 = Some (Inl (Error (js ''Transfer timed out'')), tf) \<and>
          d \<le> tf - t0 \<and> tf - t0 < d + i * 1000 + D"
    by blast
next
  assume "(\<forall>j<k. fst (getStatus this (poll_start this i t0 j)) = Inr PENDING \<or>
            fst (getStatus this (poll_start this i t0 j)) = Inr BROADCAST) \<and>
    (\<forall>j\<le>k. Number_less (poll_start this i t0 j - t0) (Number_times_1000 (Number_of_rat T))) \<and>
    getStatus this (poll_start this i t0 k) = (Inr s, t) \<and> (s = COMPLETE \<or> s = FAILED)"
  then show "wait this (Some i) (Some T) t0 = Some (Inr this, t)"
    using wait_loop_polls [of k this i t0 t0 "Number_of_rat T" s t] by (simp add: wait_def)
qed

theorem wait_timing_witness:
  "(\<exists>tf. wait (sample_transfer (js ''t1'') (js ''eth'') (js ''1'') [] None quiet_provider)
      (Some (1 / 2)) (Some 1) 0 = Some (Inl (Error (js ''Transfer timed out'')), tf) \<and>
      1000 \<le> tf - 0 \<and> tf - 0 < 1000 + 1 / 2 * 1000 + 0) \<and>
   wait
     (sample_transfer (js ''t1'') (js ''eth'') (js ''1'') [] (Some (js ''0xh1''))
        (late_provider 150 20))
     (Some (1 / 10)) (Some 1) 0 =
   Some (Inr (sample_transfer (js ''t1'') (js ''eth'') (js ''1'') [] (Some (js ''0xh1''))
        (late_provider 150 20)), 280)"
proof -
  have a: "\<exists>tf. wait (sample_transfer (js ''t1'') (js ''eth'') (js ''1'') [] None quiet_provider)
      (Some (1 / 2)) (Some 1) 0 = Some (Inl (Error (js ''Transfer timed out'')), tf) \<and>
      1000 \<le> tf - 0 \<and> tf - 0 < 1000 + 1 / 2 * 1000 + 0"
    using wait_timing
      [of "1 / 2" 1 0 1000 0 "sample_transfer (js ''t1'') (js ''eth'') (js ''1'') [] None quiet_provider"
        0 COMPLETE 0, THEN conjunct1]
    by (simp add: quiet_status deadline_1)
  have p: "poll_start (sample_transfer (js ''t1'') (js ''eth'') (js ''1'') [] (Some (js ''0xh1''))
        (late_provider 150 20)) (1 / 10) 0 j =
      (if j = 0 then 0 else if j = 1 then 120 else 240)" if "j \<le> 2" for j
  proof -
    from that have "j = 0 \<or> j = Suc 0 \<or> j = Suc (Suc 0)" by arith
    then show ?thesis by (auto simp add: late_status delay_def)
  qed
  have b: "wait
     (sample_transfer (js ''t1'') (js ''eth'') (js ''1'') [] (Some (js ''0xh1''))
        (late_provider 150 20))
     (Some (1 / 10)) (Some 1) 0 =
   Some (Inr (sample_transfer (js ''t1'') (js ''eth'') (js ''1'') [] (Some (js ''0xh1''))
        (late_provider 150 20)), 280)"
    using wait_timing
      [of "1 / 10" 1 0 1000 0 "sample_transfer (js ''t1'') (js ''eth'') (js ''1'') [] (Some (js ''0xh1''))
        (late_provider 150 20)" 2 COMPLETE 280, THEN conjunct2]
    by (simp add: p late_status deadline_1 Number_less_def)
  from a b show ?thesis by blast
qed

text \<open>
  With an interval of 0.1 s, a timeout of 0.2 s and status resolutions that take 70 ms,
  the timeout error is thrown 340 ms after the start, which is not less than the timeout
  plus one interval. With an interval of 0.223 s, a timeout of 2.007 s and instantaneous
  resolutions, the loop test at 2007 ms still passes, the deadline being
  2007.0000000000002 ms, and the error is thrown at 2230 ms, which is not less than the
  timeout plus one interval either.
\<close>

theorem wait_timing_counterexample:
  "wait (sample_transfer (js ''t1'') (js ''eth'') (js ''1'') [] (Some (js ''0xh1''))
        (slow_provider 70)) (Some (1 / 10)) (Some (2 / 10)) 0 =
     Some (Inl (Error (js ''Transfer timed out'')), 340) \<and>
   \<not> (340 - 0 < 2 / 10 * 1000 + 1 / 10 * (1000 :: rat)) \<and>
   wait (sample_transfer (js ''t1'') (js ''eth'') (js ''1'') [] None quiet_provider)
        (Some (223 / 1000)) (Some (2007 / 1000)) 0 =
     Some (Inl (Error (js ''Transfer timed out'')), 2230) \<and>
   \<not> (2230 - 0 < 2007 / 1000 * 1000 + 223 / 1000 * (1000 :: rat))"
proof -
  have g: "getStatus (sample_transfer (js ''t1'') (js ''eth'') (js ''1'') [] (Some (js ''0xh1''))
        (slow_provider 70)) t = (Inr PENDING, t + 70)" for t
    by (simp add: sample_eval)
  have a: "wait (sample_transfer (js ''t1'') (js ''eth'') (js ''1'') [] (Some (js ''0xh1''))
        (slow_provider 70)) (Some (1 / 10)) (Some (1 / 5)) 0 =
     Some (Inl (Error (js ''Transfer timed out'')), 340)"
    by (simp add: wait_def wait_loop_unroll [OF deadline_1_5] g delay_def)
  have b: "wait (sample_transfer (js ''t1'') (js ''eth'') (js ''1'') [] None quiet_provider)
        (Some (223 / 1000)) (Some (2007 / 1000)) 0 =
     Some (Inl (Error (js ''Transfer timed out'')), 2230)"
    by (simp add: wait_def wait_loop_unroll [OF deadline_2007] quiet_status delay_def)
  from a b show ?thesis by simp
qed

end
